theory Spec2Isabelle
  imports Main "HOL-Library.Word"
begin

section \<open>Symbol model\<close>

text \<open>
  The declaration of \<^verbatim>\<open>SYMBOL\<close> lives in \<^verbatim>\<open>PDB.h\<close>, which is not part of the sources at
  hand. The record below holds the attributes that \<^verbatim>\<open>UserDataFieldDefinition\<close> and
  \<^verbatim>\<open>PDBExtractor\<close> read or write: the tag, the name, the byte size, the element count of
  an array (\<^verbatim>\<open>u.Array.ElementCount\<close>) and the kind of a user-defined type
  (\<^verbatim>\<open>u.UserData.Kind\<close>). Sizes and counts are \<^verbatim>\<open>DWORD\<close>s.
\<close>

datatype SymTagEnum =
    SymTagBaseType
  | SymTagPointerType
  | SymTagArrayType
  | SymTagFunctionType
  | SymTagEnum
  | SymTagUDT
  | SymTagTypedef
  | SymTagData

datatype UdtKind = UdtStruct | UdtClass | UdtUnion

record SYMBOL =
  Tag :: SymTagEnum
  Name :: string
  Size :: "32 word"
  ElementCount :: "32 word"
  Kind :: UdtKind

section \<open>The field-declaration printer (UserDataFieldDefinition)\<close>

text \<open>\<^verbatim>\<open>std::to_string\<close> on an unsigned value: its decimal digits, most significant first.\<close>

definition digit_char :: "nat \<Rightarrow> char" where
  "digit_char d = ''0123456789'' ! d"

function to_string :: "nat \<Rightarrow> string" where
  "to_string n = (if n < 10 then [digit_char n] else to_string (n div 10) @ [digit_char (n mod 10)])"
  by pat_completeness auto
termination
  by (relation "measure id") auto

declare to_string.simps [simp del]

record Settings =
  UseStdInt :: bool

record UserDataFieldDefinition =
  m_TypePrefix :: string
  m_MemberName :: string
  m_TypeSuffix :: string
  m_Comment :: string
  m_Settings :: Settings

text \<open>A freshly constructed printer: four empty strings.\<close>

definition new_definition :: "Settings \<Rightarrow> UserDataFieldDefinition" where
  "new_definition st =
     \<lparr>m_TypePrefix = [], m_MemberName = [], m_TypeSuffix = [], m_Comment = [], m_Settings = st\<rparr>"

text \<open>
  \<^verbatim>\<open>PDB::GetBasicTypeString\<close> is defined outside the sources at hand; it is the parameter
  \<open>basic\<close>.
\<close>

definition VisitBaseType ::
  "(SYMBOL \<Rightarrow> bool \<Rightarrow> string) \<Rightarrow> SYMBOL \<Rightarrow> UserDataFieldDefinition \<Rightarrow> UserDataFieldDefinition"
where
  "VisitBaseType basic Symbol d =
     d\<lparr>m_TypePrefix := m_TypePrefix d @ basic Symbol (UseStdInt (m_Settings d))\<rparr>"

definition VisitPointerTypeEnd :: "SYMBOL \<Rightarrow> UserDataFieldDefinition \<Rightarrow> UserDataFieldDefinition" where
  "VisitPointerTypeEnd Symbol d = d\<lparr>m_TypePrefix := m_TypePrefix d @ ''*''\<rparr>"

text \<open>
  \<^verbatim>\<open>VisitArrayTypeEnd\<close> writes through its \<^verbatim>\<open>const SYMBOL*\<close> argument, so the model returns
  the symbol next to the printer.
\<close>

definition VisitArrayTypeEnd ::
  "SYMBOL \<Rightarrow> UserDataFieldDefinition \<Rightarrow> SYMBOL \<times> UserDataFieldDefinition"
where
  "VisitArrayTypeEnd Symbol d =
     (if ElementCount Symbol = 0
      then (Symbol\<lparr>Size := 1\<rparr>, d\<lparr>m_TypePrefix := m_TypePrefix d @ ''*''\<rparr>)
      else (Symbol,
            d\<lparr>m_TypeSuffix :=
                m_TypeSuffix d @ ''['' @ to_string (unat (ElementCount Symbol)) @ '']''\<rparr>))"

definition VisitFunctionTypeEnd :: "SYMBOL \<Rightarrow> UserDataFieldDefinition \<Rightarrow> UserDataFieldDefinition" where
  "VisitFunctionTypeEnd Symbol d =
     (d\<lparr>m_TypePrefix := m_TypePrefix d @ ''void''\<rparr>)\<lparr>m_Comment := '' /* function */''\<rparr>"

text \<open>The argument of \<^verbatim>\<open>SetMemberName\<close> may be a null pointer: \<open>None\<close>.\<close>

definition SetMemberName :: "string option \<Rightarrow> UserDataFieldDefinition \<Rightarrow> UserDataFieldDefinition" where
  "SetMemberName MemberName d =
     d\<lparr>m_MemberName := (case MemberName of Some n \<Rightarrow> n | None \<Rightarrow> [])\<rparr>"

definition GetPrintableDefinition :: "UserDataFieldDefinition \<Rightarrow> string" where
  "GetPrintableDefinition d =
     m_TypePrefix d @ '' '' @ m_MemberName d @ m_TypeSuffix d @ m_Comment d"

subsection \<open>The printer driven over symbols that live in memory\<close>

text \<open>
  The symbols are shared objects reached through pointers, and \<^verbatim>\<open>VisitArrayTypeEnd\<close>
  changes one in place. A memory maps every address to the symbol stored there; a call
  of the printer is a callback together with the address it is given.
\<close>

type_synonym addr = nat
type_synonym memory = "addr \<Rightarrow> SYMBOL"

datatype callback =
    CallBaseType addr
  | CallPointerTypeEnd addr
  | CallArrayTypeEnd addr
  | CallFunctionTypeEnd addr
  | CallSetMemberName "string option"

fun call ::
  "(SYMBOL \<Rightarrow> bool \<Rightarrow> string) \<Rightarrow> callback \<Rightarrow> memory \<times> UserDataFieldDefinition
     \<Rightarrow> memory \<times> UserDataFieldDefinition"
where
  "call basic (CallBaseType a) (m, d) = (m, VisitBaseType basic (m a) d)"
| "call basic (CallPointerTypeEnd a) (m, d) = (m, VisitPointerTypeEnd (m a) d)"
| "call basic (CallArrayTypeEnd a) (m, d) =
     (case VisitArrayTypeEnd (m a) d of (s, d') \<Rightarrow> (m(a := s), d'))"
| "call basic (CallFunctionTypeEnd a) (m, d) = (m, VisitFunctionTypeEnd (m a) d)"
| "call basic (CallSetMemberName n) (m, d) = (m, SetMemberName n d)"

fun calls ::
  "(SYMBOL \<Rightarrow> bool \<Rightarrow> string) \<Rightarrow> callback list \<Rightarrow> memory \<times> UserDataFieldDefinition
     \<Rightarrow> memory \<times> UserDataFieldDefinition"
where
  "calls basic [] md = md"
| "calls basic (c # cs) md = calls basic cs (call basic c md)"

text \<open>
  The symbol visitor picks the callback from the tag of the symbol it stands on: a call
  sequence is tag-directed when the base-type callback is given base types only and the
  array callback arrays only.
\<close>

fun tag_directed :: "memory \<Rightarrow> callback \<Rightarrow> bool" where
  "tag_directed m (CallBaseType a) = (Tag (m a) = SymTagBaseType)"
| "tag_directed m (CallArrayTypeEnd a) = (Tag (m a) = SymTagArrayType)"
| "tag_directed m _ = True"

text \<open>One reconstruction of a member: a fresh printer, the calls, the rendered text.\<close>

definition render_member ::
  "(SYMBOL \<Rightarrow> bool \<Rightarrow> string) \<Rightarrow> Settings \<Rightarrow> callback list \<Rightarrow> memory \<Rightarrow> memory \<times> string"
where
  "render_member basic st cs m =
     (case calls basic cs (m, new_definition st) of (m', d) \<Rightarrow> (m', GetPrintableDefinition d))"

section \<open>The extractor (PDBExtractor)\<close>

subsection \<open>Settings, streams and the collaborators outside the sources\<close>

datatype MemberStructExpansionType = None_Expansion | InlineUnnamed | InlineAll

datatype ImageArchitecture = Arch_None | Arch_x86 | Arch_x64

datatype PDBDumperException = InvalidParameters | FileNotFound | SymbolNotFound

fun what :: "PDBDumperException \<Rightarrow> string" where
  "what InvalidParameters = ''Invalid parameters''"
| "what FileNotFound = ''File not found''"
| "what SymbolNotFound = ''Symbol not found''"

text \<open>
  What is written to a stream: text, the usage text of \<^verbatim>\<open>PrintUsage\<close>, or whatever a call
  of \<^verbatim>\<open>m_SymbolVisitor->Run\<close> on a symbol writes (the visitor is outside the sources at
  hand, so its output is kept as the call itself).
\<close>

datatype out_event = Text string | Usage | VisitorRun SYMBOL

text \<open>
  A stream object. \<open>filename = None\<close> is \<^verbatim>\<open>std::cout\<close>; \<open>closed\<close> becomes true when the
  object is deleted. Stream objects are referred to by their number; \<open>stream_count\<close>
  of the extractor state is the number of the next object that \<^verbatim>\<open>new\<close> makes.
\<close>

record stream =
  filename :: "string option"
  written :: "out_event list"
  closed :: bool

record ReconstructorSettings =
  MemberStructExpansion :: MemberStructExpansionType
  OutputFile :: nat
  TestFile :: "nat option"
  AnonymousUnionPrefix :: string
  AnonymousStructPrefix :: string
  SymbolPrefix :: string
  SymbolSuffix :: string
  CreatePaddingMembers :: bool
  ShowOffsets :: bool
  MicrosoftTypedefs :: bool
  AllowBitFieldsInUnion :: bool
  AllowAnonymousDataTypes :: bool

text \<open>\<^verbatim>\<open>OutputFilename\<close> and \<^verbatim>\<open>TestFilename\<close> are C strings that may be null.\<close>

record ExtractorSettings =
  SymbolName :: string
  PdbPath :: string
  OutputFilename :: "string option"
  TestFilename :: "string option"
  PrintReferencedTypes :: bool
  PrintHeader :: bool
  PrintDeclarations :: bool
  PrintDefinitions :: bool
  PdbHeaderReconstructorSettings :: ReconstructorSettings
  UserDataFieldDefinitionSettings :: Settings

record 'srt PDBExtractor =
  m_ExtractorSettings :: ExtractorSettings
  m_SymbolSorter :: 'srt
  m_Architecture :: ImageArchitecture
  streams :: "nat \<Rightarrow> stream"
  stream_count :: nat
  cerr :: "string list"

text \<open>
  The parts of the program that are outside the sources at hand, as parameters: the
  reader of the symbol file (\<^verbatim>\<open>PDB\<close>), the symbol sorter with a state of type \<open>'srt\<close>,
  the name correction of the header reconstructor and the version macro.
\<close>

record 'srt env =
  pdb_Open :: "string \<Rightarrow> bool"
  pdb_GetSymbolMap :: "SYMBOL list"
  pdb_GetSymbolByName :: "string \<Rightarrow> SYMBOL option"
  IsUnnamedSymbol :: "SYMBOL \<Rightarrow> bool"
  GetUdtKindString :: "UdtKind \<Rightarrow> string"
  GetCorrectedSymbolName :: "ReconstructorSettings \<Rightarrow> SYMBOL \<Rightarrow> string"
  sorter_new :: 'srt
  sorter_Visit :: "SYMBOL \<Rightarrow> 'srt \<Rightarrow> 'srt"
  sorter_GetSortedSymbols :: "'srt \<Rightarrow> SYMBOL list"
  sorter_GetImageArchitecture :: "'srt \<Rightarrow> ImageArchitecture"
  sorter_Clear :: "'srt \<Rightarrow> 'srt"
  PDBEX_VERSION_STRING :: string

text \<open>
  How a call ends: it returns, it throws a \<^verbatim>\<open>PDBDumperException\<close> (the state reached at
  the throw is kept, since files opened before it stay open), it ends the process with
  \<^verbatim>\<open>exit\<close>, or it reads \<^verbatim>\<open>argv\<close> past what the command line holds.
\<close>

datatype 'a outcome = Returns 'a | Throws PDBDumperException 'a | Exits nat 'a | Undefined

definition ERROR_SUCCESS :: nat where "ERROR_SUCCESS = 0"
definition EXIT_SUCCESS :: nat where "EXIT_SUCCESS = 0"
definition EXIT_FAILURE :: nat where "EXIT_FAILURE = 1"

definition endl :: string where "endl = [CHR 0x0A]"

definition R :: "'srt PDBExtractor \<Rightarrow> ReconstructorSettings" where
  "R x = PdbHeaderReconstructorSettings (m_ExtractorSettings x)"

definition set_S :: "(ExtractorSettings \<Rightarrow> ExtractorSettings) \<Rightarrow> 'srt PDBExtractor \<Rightarrow> 'srt PDBExtractor" where
  "set_S f x = x\<lparr>m_ExtractorSettings := f (m_ExtractorSettings x)\<rparr>"

definition set_R :: "(ReconstructorSettings \<Rightarrow> ReconstructorSettings) \<Rightarrow> 'srt PDBExtractor \<Rightarrow> 'srt PDBExtractor" where
  "set_R f x = set_S (\<lambda>s. s\<lparr>PdbHeaderReconstructorSettings := f (PdbHeaderReconstructorSettings s)\<rparr>) x"

text \<open>\<^verbatim>\<open>*stream << text\<close>.\<close>

definition put :: "nat \<Rightarrow> out_event \<Rightarrow> 'srt PDBExtractor \<Rightarrow> 'srt PDBExtractor" where
  "put i ev x = x\<lparr>streams := (streams x)(i := (streams x i)\<lparr>written := written (streams x i) @ [ev]\<rparr>)\<rparr>"

text \<open>\<^verbatim>\<open>new std::ofstream(name, std::ios::out)\<close>: a new stream object with nothing written.\<close>

definition new_ofstream :: "string \<Rightarrow> 'srt PDBExtractor \<Rightarrow> nat \<times> 'srt PDBExtractor" where
  "new_ofstream name x =
     (stream_count x,
      x\<lparr>streams := (streams x)(stream_count x := \<lparr>filename = Some name, written = [], closed = False\<rparr>),
        stream_count := Suc (stream_count x)\<rparr>)"

text \<open>\<^verbatim>\<open>delete stream\<close>.\<close>

definition delete_stream :: "nat \<Rightarrow> 'srt PDBExtractor \<Rightarrow> 'srt PDBExtractor" where
  "delete_stream i x = x\<lparr>streams := (streams x)(i := (streams x i)\<lparr>closed := True\<rparr>)\<rparr>"

subsection \<open>ParseParameters\<close>

text \<open>\<^verbatim>\<open>PrintUsage\<close> prints to the standard output, which is stream 0.\<close>

definition PrintUsage :: "'srt PDBExtractor \<Rightarrow> 'srt PDBExtractor" where
  "PrintUsage x = put 0 Usage x"

text \<open>The test on the shape of an argument that guards the option switch.\<close>

definition malformed :: "string \<Rightarrow> bool" where
  "malformed CurrentArgument =
     ((length CurrentArgument \<noteq> 2 \<and> length CurrentArgument \<noteq> 3) \<or>
      (length CurrentArgument = 2 \<and> CurrentArgument ! 0 \<noteq> CHR ''-'') \<or>
      (length CurrentArgument = 3 \<and> CurrentArgument ! 0 \<noteq> CHR ''-'' \<and> CurrentArgument ! 2 \<noteq> CHR ''-''))"

text \<open>
  The inner switch of \<^verbatim>\<open>-e\<close> on the first character of the value; the empty string has
  the terminating zero there and takes the default branch.
\<close>

definition expansion_of :: "string \<Rightarrow> MemberStructExpansionType" where
  "expansion_of NextArgument =
     (case NextArgument of
        [] \<Rightarrow> InlineUnnamed
      | c # _ \<Rightarrow>
          if c = CHR ''n'' then None_Expansion
          else if c = CHR ''i'' then InlineUnnamed
          else if c = CHR ''a'' then InlineAll
          else InlineUnnamed)"

text \<open>
  The option switch on \<^verbatim>\<open>CurrentArgument[1]\<close>. \<open>NextArgument = None\<close> is the null pointer
  that ends \<^verbatim>\<open>argv\<close>. The result is \<open>None\<close> where the source throws (always before any
  assignment of that case), otherwise whether the case stepped over the next argument,
  and the new state.
\<close>

definition option_switch ::
  "string \<Rightarrow> string option \<Rightarrow> 'srt PDBExtractor \<Rightarrow> (bool \<times> 'srt PDBExtractor) option"
where
  "option_switch CurrentArgument NextArgument x =
     (let OffSwitch = (length CurrentArgument = 3 \<and> CurrentArgument ! 2 = CHR ''-'');
          c = CurrentArgument ! 1
      in
        if c = CHR ''o'' then
          (case NextArgument of None \<Rightarrow> None
           | Some n \<Rightarrow>
               (case new_ofstream n (set_S (\<lambda>s. s\<lparr>OutputFilename := Some n\<rparr>) x) of
                  (f, x') \<Rightarrow> Some (True, set_R (\<lambda>r. r\<lparr>OutputFile := f\<rparr>) x')))
        else if c = CHR ''t'' then
          (case NextArgument of None \<Rightarrow> None
           | Some n \<Rightarrow>
               (case new_ofstream n (set_S (\<lambda>s. s\<lparr>TestFilename := Some n\<rparr>) x) of
                  (f, x') \<Rightarrow> Some (True, set_R (\<lambda>r. r\<lparr>TestFile := Some f\<rparr>) x')))
        else if c = CHR ''e'' then
          (case NextArgument of None \<Rightarrow> None
           | Some n \<Rightarrow> Some (True, set_R (\<lambda>r. r\<lparr>MemberStructExpansion := expansion_of n\<rparr>) x))
        else if c = CHR ''u'' then
          (case NextArgument of None \<Rightarrow> None
           | Some n \<Rightarrow> Some (True, set_R (\<lambda>r. r\<lparr>AnonymousUnionPrefix := n\<rparr>) x))
        else if c = CHR ''s'' then
          (case NextArgument of None \<Rightarrow> None
           | Some n \<Rightarrow> Some (True, set_R (\<lambda>r. r\<lparr>AnonymousStructPrefix := n\<rparr>) x))
        else if c = CHR ''r'' then
          (case NextArgument of None \<Rightarrow> None
           | Some n \<Rightarrow> Some (True, set_R (\<lambda>r. r\<lparr>SymbolPrefix := n\<rparr>) x))
        else if c = CHR ''g'' then
          (case NextArgument of None \<Rightarrow> None
           | Some n \<Rightarrow> Some (True, set_R (\<lambda>r. r\<lparr>SymbolSuffix := n\<rparr>) x))
        else if c = CHR ''p'' then Some (False, set_R (\<lambda>r. r\<lparr>CreatePaddingMembers := \<not> OffSwitch\<rparr>) x)
        else if c = CHR ''x'' then Some (False, set_R (\<lambda>r. r\<lparr>ShowOffsets := \<not> OffSwitch\<rparr>) x)
        else if c = CHR ''m'' then Some (False, set_R (\<lambda>r. r\<lparr>MicrosoftTypedefs := \<not> OffSwitch\<rparr>) x)
        else if c = CHR ''b'' then Some (False, set_R (\<lambda>r. r\<lparr>AllowBitFieldsInUnion := \<not> OffSwitch\<rparr>) x)
        else if c = CHR ''d'' then Some (False, set_R (\<lambda>r. r\<lparr>AllowAnonymousDataTypes := \<not> OffSwitch\<rparr>) x)
        else if c = CHR ''i'' then
          Some (False, set_S (\<lambda>s. s\<lparr>UserDataFieldDefinitionSettings :=
                                      (UserDataFieldDefinitionSettings s)\<lparr>UseStdInt := \<not> OffSwitch\<rparr>\<rparr>) x)
        else if c = CHR ''j'' then Some (False, set_S (\<lambda>s. s\<lparr>PrintReferencedTypes := \<not> OffSwitch\<rparr>) x)
        else if c = CHR ''k'' then Some (False, set_S (\<lambda>s. s\<lparr>PrintHeader := \<not> OffSwitch\<rparr>) x)
        else if c = CHR ''n'' then Some (False, set_S (\<lambda>s. s\<lparr>PrintDeclarations := \<not> OffSwitch\<rparr>) x)
        else if c = CHR ''l'' then Some (False, set_S (\<lambda>s. s\<lparr>PrintDefinitions := \<not> OffSwitch\<rparr>) x)
        else None)"

text \<open>
  The \<^verbatim>\<open>while\<close> loop over the arguments that follow the symbol name and the path. The
  list holds \<^verbatim>\<open>argv\<close> from \<^verbatim>\<open>ArgumentPointer\<close> on.
\<close>

function parse_options :: "string list \<Rightarrow> 'srt PDBExtractor \<Rightarrow> 'srt PDBExtractor outcome" where
  "parse_options [] x = Returns x"
| "parse_options (CurrentArgument # rest) x =
     (if malformed CurrentArgument then Throws InvalidParameters x
      else
        (case option_switch CurrentArgument (case rest of [] \<Rightarrow> None | n # _ \<Rightarrow> Some n) x of
           None \<Rightarrow> Throws InvalidParameters x
         | Some (stepped, x') \<Rightarrow> parse_options (if stepped then drop 1 rest else rest) x'))"
  by pat_completeness auto
termination
  by (relation "measure (\<lambda>(args, x). length args)") auto

definition ParseParameters ::
  "'srt env \<Rightarrow> string list \<Rightarrow> 'srt PDBExtractor \<Rightarrow> 'srt PDBExtractor outcome"
where
  "ParseParameters E argv x =
     (if length argv = 1 \<or>
         (length argv = 2 \<and> argv ! 1 = ''-h'') \<or>
         (length argv = 2 \<and> argv ! 1 = ''--help'')
      then Exits EXIT_SUCCESS (PrintUsage x)
      else
        (case argv of
           prog # symbol # path # rest \<Rightarrow>
             (case parse_options rest (set_S (\<lambda>s. s\<lparr>SymbolName := symbol, PdbPath := path\<rparr>) x) of
                Returns x' \<Rightarrow> Returns (x'\<lparr>m_SymbolSorter := sorter_new E\<rparr>)
              | other \<Rightarrow> other)
         | _ \<Rightarrow> Undefined))"

subsection \<open>Opening the symbol file; the test file's frame\<close>

definition OpenPDBFile :: "'srt env \<Rightarrow> 'srt PDBExtractor \<Rightarrow> 'srt PDBExtractor outcome" where
  "OpenPDBFile E x =
     (if \<not> pdb_Open E (PdbPath (m_ExtractorSettings x)) then Throws FileNotFound x else Returns x)"

text \<open>
  The texts are formatted with \<^verbatim>\<open>sprintf_s\<close> into a static buffer of 16 KiB; the model
  takes the formatted text to fit. A null \<^verbatim>\<open>OutputFilename\<close> is printed by the \<^verbatim>\<open>%s\<close>
  conversion as \<^verbatim>\<open>(null)\<close>.
\<close>

definition TEST_FILE_HEADER :: "string \<Rightarrow> string" where
  "TEST_FILE_HEADER name =
     ''#include <stdio.h>'' @ endl @
     ''#include <stddef.h>'' @ endl @
     ''#include <stdint.h>'' @ endl @
     endl @
     ''#include '' @ [CHR 0x22] @ name @ [CHR 0x22] @ endl @
     endl @
     ''int main()'' @ endl @
     ''{'' @ endl"

definition TEST_FILE_FOOTER :: string where
  "TEST_FILE_FOOTER =
     endl @
     [CHR 0x09] @ ''return 0;'' @ endl @
     ''}'' @ endl @
     endl"

definition HEADER_FILE_HEADER :: "string \<Rightarrow> string \<Rightarrow> string \<Rightarrow> string" where
  "HEADER_FILE_HEADER version path arch =
     ''/*'' @ endl @
     '' * PDB file: '' @ path @ endl @
     '' * Image architecture: '' @ arch @ endl @
     '' *'' @ endl @
     '' * Dumped by pdbex tool v'' @ version @ '', by wbenny'' @ endl @
     '' */'' @ endl @ endl"

definition PrintTestHeader :: "'srt PDBExtractor \<Rightarrow> 'srt PDBExtractor" where
  "PrintTestHeader x =
     (case TestFile (R x) of
        Some f \<Rightarrow>
          put f (Text (TEST_FILE_HEADER
                         (case OutputFilename (m_ExtractorSettings x) of
                            Some n \<Rightarrow> n | None \<Rightarrow> ''(null)''))) x
      | None \<Rightarrow> x)"

definition PrintTestFooter :: "'srt PDBExtractor \<Rightarrow> 'srt PDBExtractor" where
  "PrintTestFooter x =
     (case TestFile (R x) of
        Some f \<Rightarrow> put f (Text TEST_FILE_FOOTER) x
      | None \<Rightarrow> x)"

subsection \<open>Header, declarations, definitions\<close>

text \<open>
  The loop of \<^verbatim>\<open>GetArchitecture\<close> over the symbol map: it stops at the first symbol after
  which the sorter knows the architecture, and clears the sorter only then.
\<close>

fun GetArchitecture_loop :: "'srt env \<Rightarrow> SYMBOL list \<Rightarrow> 'srt PDBExtractor \<Rightarrow> 'srt PDBExtractor" where
  "GetArchitecture_loop E [] x = x"
| "GetArchitecture_loop E (e # es) x =
     (let x1 = x\<lparr>m_SymbolSorter := sorter_Visit E e (m_SymbolSorter x)\<rparr>
      in if sorter_GetImageArchitecture E (m_SymbolSorter x1) \<noteq> Arch_None
         then x1\<lparr>m_Architecture := sorter_GetImageArchitecture E (m_SymbolSorter x1),
                 m_SymbolSorter := sorter_Clear E (m_SymbolSorter x1)\<rparr>
         else GetArchitecture_loop E es x1)"

definition GetArchitecture :: "'srt env \<Rightarrow> 'srt PDBExtractor \<Rightarrow> 'srt PDBExtractor" where
  "GetArchitecture E x = GetArchitecture_loop E (pdb_GetSymbolMap E) x"

fun ArchictureStrings :: "ImageArchitecture \<Rightarrow> string" where
  "ArchictureStrings Arch_None = ''None''"
| "ArchictureStrings Arch_x86 = ''x86''"
| "ArchictureStrings Arch_x64 = ''x64''"

definition PrintPDBHeader :: "'srt env \<Rightarrow> 'srt PDBExtractor \<Rightarrow> 'srt PDBExtractor" where
  "PrintPDBHeader E x =
     (if PrintHeader (m_ExtractorSettings x)
      then (let x1 = GetArchitecture E x
            in put (OutputFile (R x1))
                 (Text (HEADER_FILE_HEADER (PDBEX_VERSION_STRING E)
                          (PdbPath (m_ExtractorSettings x1))
                          (ArchictureStrings (m_Architecture x1)))) x1)
      else x)"

text \<open>The line that forward-declares a symbol: kind, corrected name, semicolon, end of line.\<close>

definition declaration_line :: "'srt env \<Rightarrow> ReconstructorSettings \<Rightarrow> SYMBOL \<Rightarrow> string" where
  "declaration_line E r e =
     GetUdtKindString E (Kind e) @ '' '' @ GetCorrectedSymbolName E r e @ '';'' @ endl"

fun PrintPDBDeclarations_loop ::
  "'srt env \<Rightarrow> SYMBOL list \<Rightarrow> 'srt PDBExtractor \<Rightarrow> 'srt PDBExtractor"
where
  "PrintPDBDeclarations_loop E [] x = x"
| "PrintPDBDeclarations_loop E (e # es) x =
     PrintPDBDeclarations_loop E es
       (if Tag e = SymTagUDT \<and> \<not> IsUnnamedSymbol E e
        then put (OutputFile (R x)) (Text (declaration_line E (R x) e)) x
        else x)"

definition PrintPDBDeclarations :: "'srt env \<Rightarrow> 'srt PDBExtractor \<Rightarrow> 'srt PDBExtractor" where
  "PrintPDBDeclarations E x =
     (if PrintDeclarations (m_ExtractorSettings x)
      then (let x1 = PrintPDBDeclarations_loop E (sorter_GetSortedSymbols E (m_SymbolSorter x)) x
            in put (OutputFile (R x1)) (Text endl) x1)
      else x)"

text \<open>
  \<^verbatim>\<open>m_SymbolVisitor->Run(e)\<close>. The visitor and the header reconstructor behind it are
  outside the sources at hand; the visitor is constructed over the reconstructor
  settings and emits the definition of \<open>e\<close> to their output file. The call is kept
  as one event on that stream; the text it stands for is not modelled.
\<close>

definition SymbolVisitor_Run :: "SYMBOL \<Rightarrow> 'srt PDBExtractor \<Rightarrow> 'srt PDBExtractor" where
  "SymbolVisitor_Run e x = put (OutputFile (R x)) (VisitorRun e) x"

definition Expand :: "'srt env \<Rightarrow> ReconstructorSettings \<Rightarrow> SYMBOL \<Rightarrow> bool" where
  "Expand E r e =
     (\<not> (MemberStructExpansion r = InlineUnnamed \<and>
         (Tag e = SymTagEnum \<or> Tag e = SymTagUDT) \<and>
         IsUnnamedSymbol E e))"

fun PrintPDBDefinitions_loop ::
  "'srt env \<Rightarrow> SYMBOL list \<Rightarrow> 'srt PDBExtractor \<Rightarrow> 'srt PDBExtractor"
where
  "PrintPDBDefinitions_loop E [] x = x"
| "PrintPDBDefinitions_loop E (e # es) x =
     PrintPDBDefinitions_loop E es (if Expand E (R x) e then SymbolVisitor_Run e x else x)"

definition PrintPDBDefinitions :: "'srt env \<Rightarrow> 'srt PDBExtractor \<Rightarrow> 'srt PDBExtractor" where
  "PrintPDBDefinitions E x =
     (if PrintDefinitions (m_ExtractorSettings x)
      then PrintPDBDefinitions_loop E (sorter_GetSortedSymbols E (m_SymbolSorter x)) x
      else x)"

subsection \<open>The two modes and the run\<close>

fun Visit_all :: "'srt env \<Rightarrow> SYMBOL list \<Rightarrow> 'srt PDBExtractor \<Rightarrow> 'srt PDBExtractor" where
  "Visit_all E [] x = x"
| "Visit_all E (e # es) x = Visit_all E es (x\<lparr>m_SymbolSorter := sorter_Visit E e (m_SymbolSorter x)\<rparr>)"

definition DumpAllSymbols :: "'srt env \<Rightarrow> 'srt PDBExtractor \<Rightarrow> 'srt PDBExtractor" where
  "DumpAllSymbols E x =
     (let x1 = PrintPDBHeader E x;
          x2 = Visit_all E (pdb_GetSymbolMap E) x1;
          x3 = PrintPDBDeclarations E x2
      in PrintPDBDefinitions E x3)"

definition DumpOneSymbol :: "'srt env \<Rightarrow> 'srt PDBExtractor \<Rightarrow> 'srt PDBExtractor outcome" where
  "DumpOneSymbol E x =
     (case pdb_GetSymbolByName E (SymbolName (m_ExtractorSettings x)) of
        None \<Rightarrow> Throws SymbolNotFound x
      | Some Symbol \<Rightarrow>
          (let x1 = PrintPDBHeader E x
           in if PrintReferencedTypes (m_ExtractorSettings x1) \<and>
                 MemberStructExpansion (R x1) \<noteq> InlineAll
              then Returns (PrintPDBDefinitions E
                              (x1\<lparr>m_SymbolSorter := sorter_Visit E Symbol (m_SymbolSorter x1)\<rparr>))
              else Returns (SymbolVisitor_Run Symbol x1)))"

text \<open>
  \<^verbatim>\<open>delete\<close> of the two stream objects, each only when its file name was given; deleting
  a null \<^verbatim>\<open>TestFile\<close> does nothing.
\<close>

definition CloseOpenedFiles :: "'srt PDBExtractor \<Rightarrow> 'srt PDBExtractor" where
  "CloseOpenedFiles x =
     (let x1 = (if TestFilename (m_ExtractorSettings x) \<noteq> None
                then (case TestFile (R x) of Some f \<Rightarrow> delete_stream f x | None \<Rightarrow> x)
                else x)
      in if OutputFilename (m_ExtractorSettings x1) \<noteq> None
         then delete_stream (OutputFile (R x1)) x1
         else x1)"

fun and_then :: "'a outcome \<Rightarrow> ('a \<Rightarrow> 'a outcome) \<Rightarrow> 'a outcome" where
  "and_then (Returns x) f = f x"
| "and_then other f = other"

text \<open>The body of the \<^verbatim>\<open>try\<close> block of \<^verbatim>\<open>Run\<close>.\<close>

definition Run_try :: "'srt env \<Rightarrow> string list \<Rightarrow> 'srt PDBExtractor \<Rightarrow> 'srt PDBExtractor outcome" where
  "Run_try E argv x =
     and_then (ParseParameters E argv x) (\<lambda>x1.
     and_then (OpenPDBFile E x1) (\<lambda>x2.
     and_then (Returns (PrintTestHeader x2)) (\<lambda>x3.
     and_then (if SymbolName (m_ExtractorSettings x3) = ''*''
               then Returns (DumpAllSymbols E x3)
               else DumpOneSymbol E x3) (\<lambda>x4.
     Returns (PrintTestFooter x4)))))"

text \<open>
  \<^verbatim>\<open>Run\<close>: the result code and the final state. The handler writes one line to
  \<^verbatim>\<open>std::cerr\<close>; \<^verbatim>\<open>CloseOpenedFiles\<close> runs after the \<^verbatim>\<open>try\<close> statement on both paths, but
  not when \<^verbatim>\<open>ParseParameters\<close> ends the process.
\<close>

definition Run :: "'srt env \<Rightarrow> string list \<Rightarrow> 'srt PDBExtractor \<Rightarrow> (nat \<times> 'srt PDBExtractor) outcome" where
  "Run E argv x =
     (case Run_try E argv x of
        Returns x' \<Rightarrow> Returns (ERROR_SUCCESS, CloseOpenedFiles x')
      | Throws e x' \<Rightarrow> Returns (EXIT_FAILURE, CloseOpenedFiles (x'\<lparr>cerr := cerr x' @ [what e]\<rparr>))
      | Exits n x' \<Rightarrow> Exits n (n, x')
      | Undefined \<Rightarrow> Undefined)"

section \<open>Reconstruction of a definition\<close>

text \<open>
  The symbol visitor (\<^verbatim>\<open>PDBSymbolVisitor\<close>) and the header reconstructor
  (\<^verbatim>\<open>PDBHeaderReconstructor\<close>) drive the printer and lay out the members of a
  user-defined type. Their code is not among the sources at hand, so this section
  follows the specification, sections 3, 4.3 and 4.5. The printer they drive is the one
  of the sources, and with it the write to the size of a zero-length array.
\<close>





















section \<open>Auxiliary notions for the proofs\<close>

text \<open>
  \<open>coerced m m'\<close>: memory \<open>m'\<close> is \<open>m\<close> after the size of some zero-length arrays was
  set to 1. \<open>settled_at a m\<close>: if the symbol at \<open>a\<close> is a zero-length array, its size
  in \<open>m\<close> is 1 already. \<open>follows m m' m1 m1'\<close>: memory \<open>m1'\<close> is \<open>m'\<close> with the changes
  that lead from \<open>m\<close> to \<open>m1\<close>.
\<close>

definition coerced :: "memory \<Rightarrow> memory \<Rightarrow> bool" where
  "coerced m m' \<longleftrightarrow>
     (\<forall>a. m' a = m a \<or>
          (Tag (m a) = SymTagArrayType \<and> ElementCount (m a) = 0 \<and> m' a = (m a)\<lparr>Size := 1\<rparr>))"






text \<open>
  \<open>quiet x y\<close>: from state \<open>x\<close> to state \<open>y\<close> nothing was written to \<^verbatim>\<open>std::cerr\<close>, and
  every stream holds what it held or is a new stream with nothing written.
\<close>

definition quiet :: "'srt PDBExtractor \<Rightarrow> 'srt PDBExtractor \<Rightarrow> bool" where
  "quiet x y \<longleftrightarrow>
     cerr y = cerr x \<and>
     (\<forall>j. written (streams y j) = written (streams x j) \<or> written (streams y j) = [])"

text \<open>\<open>puts i evs x\<close>: the state \<open>x\<close> after the events \<open>evs\<close> were written to stream \<open>i\<close>.\<close>

definition puts :: "nat \<Rightarrow> out_event list \<Rightarrow> 'srt PDBExtractor \<Rightarrow> 'srt PDBExtractor" where
  "puts i evs x = x\<lparr>streams := (streams x)(i := (streams x i)\<lparr>written := written (streams x i) @ evs\<rparr>)\<rparr>"

text \<open>
  Which arguments the option loop examines as options. An argument whose second
  character is one of \<^verbatim>\<open>o t e u s r g\<close> takes the argument after it as its value, and the
  loop steps over that value.
\<close>

definition takes_value :: "string \<Rightarrow> bool" where
  "takes_value a = (a ! 1 \<in> set ''oteusrg'')"

function option_arguments :: "string list \<Rightarrow> string list" where
  "option_arguments [] = []"
| "option_arguments (a # rest) = a # option_arguments (if takes_value a then drop 1 rest else rest)"
  by pat_completeness auto
termination
  by (relation "measure length") auto

text \<open>
  The shape of a flag as the specification words it: a dash and one character, or a
  dash, one character and a dash.
\<close>

definition worded_flag_form :: "string \<Rightarrow> bool" where
  "worded_flag_form a =
     ((length a = 2 \<and> a ! 0 = CHR ''-'') \<or>
      (length a = 3 \<and> a ! 0 = CHR ''-'' \<and> a ! 2 = CHR ''-''))"

section \<open>Concrete inputs\<close>

text \<open>
  A small symbol file, a sorter that keeps the symbols it was shown in the order of
  their first visit, and an extractor with the defaults that the usage text lists
  (output to \<^verbatim>\<open>std::cout\<close>, no test file, inline expansion of unnamed types, referenced
  types, header, declarations and definitions on).
\<close>

definition demo_struct :: SYMBOL where
  "demo_struct = \<lparr>Tag = SymTagUDT, Name = ''_LIST_ENTRY'', Size = 16, ElementCount = 0, Kind = UdtStruct\<rparr>"

definition demo_union :: SYMBOL where
  "demo_union = \<lparr>Tag = SymTagUDT, Name = ''<unnamed-tag>'', Size = 8, ElementCount = 0, Kind = UdtUnion\<rparr>"

definition demo_enum :: SYMBOL where
  "demo_enum = \<lparr>Tag = SymTagEnum, Name = ''_MODE'', Size = 4, ElementCount = 0, Kind = UdtStruct\<rparr>"

definition demo_env :: "SYMBOL list env" where
  "demo_env =
     \<lparr>pdb_Open = (\<lambda>p. p = ''a.pdb''),
      pdb_GetSymbolMap = [demo_union, demo_struct, demo_enum],
      pdb_GetSymbolByName = (\<lambda>n. if n = ''_LIST_ENTRY'' then Some demo_struct else None),
      IsUnnamedSymbol = (\<lambda>e. Name e = ''<unnamed-tag>''),
      GetUdtKindString =
        (\<lambda>k. case k of UdtStruct \<Rightarrow> ''struct'' | UdtClass \<Rightarrow> ''class'' | UdtUnion \<Rightarrow> ''union''),
      GetCorrectedSymbolName = (\<lambda>r e. SymbolPrefix r @ Name e @ SymbolSuffix r),
      sorter_new = [],
      sorter_Visit = (\<lambda>e srt. if e \<in> set srt then srt else srt @ [e]),
      sorter_GetSortedSymbols = (\<lambda>srt. srt),
      sorter_GetImageArchitecture = (\<lambda>srt. if srt = [] then Arch_None else Arch_x64),
      sorter_Clear = (\<lambda>srt. []),
      PDBEX_VERSION_STRING = ''0.18''\<rparr>"

definition demo_extractor :: "SYMBOL list PDBExtractor" where
  "demo_extractor =
     \<lparr>m_ExtractorSettings =
        \<lparr>SymbolName = [], PdbPath = [], OutputFilename = None, TestFilename = None,
         PrintReferencedTypes = True, PrintHeader = True, PrintDeclarations = True,
         PrintDefinitions = True,
         PdbHeaderReconstructorSettings =
           \<lparr>MemberStructExpansion = InlineUnnamed, OutputFile = 0, TestFile = None,
            AnonymousUnionPrefix = ''u'', AnonymousStructPrefix = ''s'',
            SymbolPrefix = [], SymbolSuffix = [],
            CreatePaddingMembers = True, ShowOffsets = True, MicrosoftTypedefs = True,
            AllowBitFieldsInUnion = False, AllowAnonymousDataTypes = True\<rparr>,
         UserDataFieldDefinitionSettings = \<lparr>UseStdInt = False\<rparr>\<rparr>,
      m_SymbolSorter = [],
      m_Architecture = Arch_None,
      streams = (\<lambda>i. \<lparr>filename = None, written = [], closed = False\<rparr>),
      stream_count = 1,
      cerr = []\<rparr>"






text \<open>The extractor of above, but with the expansion policy \<open>InlineAll\<close>.\<close>

definition demo_inline_all :: "SYMBOL list PDBExtractor" where
  "demo_inline_all =
     demo_extractor
       \<lparr>m_ExtractorSettings :=
          (m_ExtractorSettings demo_extractor)
            \<lparr>PdbHeaderReconstructorSettings :=
               (PdbHeaderReconstructorSettings (m_ExtractorSettings demo_extractor))
                 \<lparr>MemberStructExpansion := InlineAll\<rparr>\<rparr>\<rparr>"

section \<open>The printer: theorems\<close>

text \<open>
  C1. For an array symbol given to \<^verbatim>\<open>VisitArrayTypeEnd\<close>: when the element count is zero,
  a pointer marker is appended to the type prefix, the suffix stays as it is and the
  symbol's size becomes 1; when the element count is not zero, the bracketed decimal
  count is appended to the type suffix, the prefix stays as it is and the symbol (its
  size included) is unchanged.
\<close>

theorem VisitArrayTypeEnd_cases:
  "(ElementCount Symbol = 0 \<longrightarrow>
      VisitArrayTypeEnd Symbol d =
        (Symbol\<lparr>Size := 1\<rparr>, d\<lparr>m_TypePrefix := m_TypePrefix d @ ''*''\<rparr>)
      \<and> Size (fst (VisitArrayTypeEnd Symbol d)) = 1
      \<and> m_TypeSuffix (snd (VisitArrayTypeEnd Symbol d)) = m_TypeSuffix d)
   \<and> (ElementCount Symbol \<noteq> 0 \<longrightarrow>
      fst (VisitArrayTypeEnd Symbol d) = Symbol
      \<and> Size (fst (VisitArrayTypeEnd Symbol d)) = Size Symbol
      \<and> m_TypePrefix (snd (VisitArrayTypeEnd Symbol d)) = m_TypePrefix d
      \<and> m_TypeSuffix (snd (VisitArrayTypeEnd Symbol d)) =
          m_TypeSuffix d @ ''['' @ to_string (unat (ElementCount Symbol)) @ '']'')"
  by (simp add: VisitArrayTypeEnd_def)

theorem VisitArrayTypeEnd_cases_witness:
  "VisitArrayTypeEnd
     \<lparr>Tag = SymTagArrayType, Name = ''a'', Size = 0, ElementCount = 0, Kind = UdtStruct\<rparr>
     (new_definition \<lparr>UseStdInt = False\<rparr>)
   = (\<lparr>Tag = SymTagArrayType, Name = ''a'', Size = 1, ElementCount = 0, Kind = UdtStruct\<rparr>,
      \<lparr>m_TypePrefix = ''*'', m_MemberName = [], m_TypeSuffix = [], m_Comment = [],
        m_Settings = \<lparr>UseStdInt = False\<rparr>\<rparr>)
   \<and> snd (VisitArrayTypeEnd
     \<lparr>Tag = SymTagArrayType, Name = ''b'', Size = 64, ElementCount = 16, Kind = UdtStruct\<rparr>
     (new_definition \<lparr>UseStdInt = False\<rparr>))
   = \<lparr>m_TypePrefix = [], m_MemberName = [], m_TypeSuffix = ''[16]'', m_Comment = [],
        m_Settings = \<lparr>UseStdInt = False\<rparr>\<rparr>
   \<and> Size (fst (VisitArrayTypeEnd
     \<lparr>Tag = SymTagArrayType, Name = ''b'', Size = 64, ElementCount = 16, Kind = UdtStruct\<rparr>
     (new_definition \<lparr>UseStdInt = False\<rparr>))) = 64"
  using VisitArrayTypeEnd_cases
          [of "\<lparr>Tag = SymTagArrayType, Name = ''a'', Size = 0, ElementCount = 0, Kind = UdtStruct\<rparr>"
              "new_definition \<lparr>UseStdInt = False\<rparr>"]
        VisitArrayTypeEnd_cases
          [of "\<lparr>Tag = SymTagArrayType, Name = ''b'', Size = 64, ElementCount = 16, Kind = UdtStruct\<rparr>"
              "new_definition \<lparr>UseStdInt = False\<rparr>"]
  by (simp add: VisitArrayTypeEnd_def new_definition_def to_string.simps digit_char_def)

lemma calls_append: "calls basic (cs @ cs') md = calls basic cs' (calls basic cs md)"
  by (induction cs arbitrary: md) simp_all

lemma call_comment_kept:
  "m_Comment (snd md) = '' /* function */'' \<Longrightarrow> m_Comment (snd (call basic c md)) = '' /* function */''"
  by (cases c; cases md)
     (simp_all add: VisitBaseType_def VisitPointerTypeEnd_def VisitArrayTypeEnd_def
        VisitFunctionTypeEnd_def SetMemberName_def)

lemma calls_comment_kept:
  "m_Comment (snd md) = '' /* function */'' \<Longrightarrow> m_Comment (snd (calls basic cs md)) = '' /* function */''"
  by (induction cs arbitrary: md) (simp_all add: call_comment_kept)

text \<open>
  C2. For a function symbol given to \<^verbatim>\<open>VisitFunctionTypeEnd\<close>: the fixed primitive
  \<^verbatim>\<open>void\<close> is appended to the type prefix and the comment becomes \<^verbatim>\<open> /* function */\<close>;
  the result does not depend on the symbol, so not on the function's parameter and
  return types; the rendered text ends with that comment, directly after the callback
  and at the end of every call sequence on a fresh printer that contains the callback.
  A member that points to a function (the function callback, the pointer callback, the
  member name \<open>n\<close>) is rendered as \<^verbatim>\<open>void* n /* function */\<close>. The callback is a total
  function without an error result.
\<close>

theorem VisitFunctionTypeEnd_void_comment:
  "m_TypePrefix (VisitFunctionTypeEnd Symbol d) = m_TypePrefix d @ ''void''
   \<and> m_Comment (VisitFunctionTypeEnd Symbol d) = '' /* function */''
   \<and> VisitFunctionTypeEnd Symbol d = VisitFunctionTypeEnd Symbol' d
   \<and> (\<exists>t. GetPrintableDefinition (VisitFunctionTypeEnd Symbol d) = t @ '' /* function */'')
   \<and> (\<exists>t. snd (render_member basic st (before @ CallFunctionTypeEnd a # after) m)
            = t @ '' /* function */'')
   \<and> render_member basic st
         [CallFunctionTypeEnd a, CallPointerTypeEnd p, CallSetMemberName (Some n)] m
       = (m, ''void* '' @ n @ '' /* function */'')"
proof -
  obtain m1 d1 where md1: "calls basic before (m, new_definition st) = (m1, d1)"
    by (cases "calls basic before (m, new_definition st)")
  have "m_Comment (snd (call basic (CallFunctionTypeEnd a) (m1, d1))) = '' /* function */''"
    by (simp add: VisitFunctionTypeEnd_def)
  then have c: "m_Comment (snd (calls basic (before @ CallFunctionTypeEnd a # after) (m, new_definition st)))
        = '' /* function */''"
    by (simp add: calls_append md1 calls_comment_kept)
  have "\<exists>t. snd (render_member basic st (before @ CallFunctionTypeEnd a # after) m)
            = t @ '' /* function */''"
    using c
    by (cases "calls basic (before @ CallFunctionTypeEnd a # after) (m, new_definition st)")
       (simp add: render_member_def GetPrintableDefinition_def
          del: append_assoc add: append_assoc [symmetric])
  moreover have "render_member basic st
         [CallFunctionTypeEnd a, CallPointerTypeEnd p, CallSetMemberName (Some n)] m
       = (m, ''void* '' @ n @ '' /* function */'')"
    by (simp add: render_member_def new_definition_def VisitFunctionTypeEnd_def
          VisitPointerTypeEnd_def SetMemberName_def GetPrintableDefinition_def)
  ultimately show ?thesis
    by (simp add: VisitFunctionTypeEnd_def GetPrintableDefinition_def
          del: append_assoc add: append_assoc [symmetric])
qed

text \<open>
  C5. \<^verbatim>\<open>GetPrintableDefinition\<close> returns the type prefix, one space, the member name, the
  type suffix and the comment, concatenated in this order.
\<close>

theorem GetPrintableDefinition_concatenation:
  "GetPrintableDefinition d =
     m_TypePrefix d @ '' '' @ m_MemberName d @ m_TypeSuffix d @ m_Comment d
   \<and> GetPrintableDefinition
       \<lparr>m_TypePrefix = p, m_MemberName = n, m_TypeSuffix = s, m_Comment = c, m_Settings = st\<rparr>
     = p @ '' '' @ n @ s @ c"
  by (simp add: GetPrintableDefinition_def)

subsection \<open>Running a reconstruction a second time\<close>



lemma coerced_fields:
  "coerced m m' \<Longrightarrow> Tag (m' a) = Tag (m a) \<and> ElementCount (m' a) = ElementCount (m a)"
  unfolding coerced_def by (erule_tac x = a in allE) auto




lemma call_fst_coerced:
  assumes "coerced m m'"
  shows "coerced (fst (call basic c (m, d))) (fst (call basic c (m', d)))"
proof (cases c)
  case (CallArrayTypeEnd a)
  have e: "ElementCount (m' a) = ElementCount (m a)" using assms by (simp add: coerced_fields)
  have at: "m' a = m a \<or> m' a = (m a)\<lparr>Size := 1\<rparr>"
    using assms unfolding coerced_def by (erule_tac x = a in allE) auto
  show ?thesis
  proof (cases "ElementCount (m a) = 0")
    case True
    have "coerced (m(a := (m a)\<lparr>Size := 1\<rparr>)) (m'(a := (m' a)\<lparr>Size := 1\<rparr>))"
      unfolding coerced_def
    proof (intro allI)
      fix b
      show "(m'(a := (m' a)\<lparr>Size := 1\<rparr>)) b = (m(a := (m a)\<lparr>Size := 1\<rparr>)) b \<or>
            Tag ((m(a := (m a)\<lparr>Size := 1\<rparr>)) b) = SymTagArrayType \<and>
            ElementCount ((m(a := (m a)\<lparr>Size := 1\<rparr>)) b) = 0 \<and>
            (m'(a := (m' a)\<lparr>Size := 1\<rparr>)) b = ((m(a := (m a)\<lparr>Size := 1\<rparr>)) b)\<lparr>Size := 1\<rparr>"
      proof (cases "b = a")
        case True
        with at show ?thesis by auto
      next
        case False
        with assms show ?thesis unfolding coerced_def by (erule_tac x = b in allE) auto
      qed
    qed
    with True e CallArrayTypeEnd show ?thesis by (simp add: VisitArrayTypeEnd_def)
  next
    case False
    with e CallArrayTypeEnd assms show ?thesis by (simp add: VisitArrayTypeEnd_def)
  qed
qed (simp_all add: assms)

lemma call_tag_directed:
  "tag_directed m c' \<Longrightarrow> tag_directed (fst (call basic c (m, d))) c'"
  by (cases c; cases c') (auto simp add: VisitArrayTypeEnd_def)






























section \<open>The extractor: theorems\<close>

subsection \<open>Writing to streams\<close>

lemma put_puts: "put i ev x = puts i [ev] x"
  by (simp add: put_def puts_def)

lemma puts_Nil: "puts i [] x = x"
  by (simp add: puts_def)

lemma puts_puts: "puts i evs' (puts i evs x) = puts i (evs @ evs') x"
  by (simp add: puts_def)

lemma puts_fields:
  "m_ExtractorSettings (puts i evs x) = m_ExtractorSettings x"
  "m_SymbolSorter (puts i evs x) = m_SymbolSorter x"
  "m_Architecture (puts i evs x) = m_Architecture x"
  "stream_count (puts i evs x) = stream_count x"
  "cerr (puts i evs x) = cerr x"
  "R (puts i evs x) = R x"
  by (simp_all add: puts_def R_def)

lemma puts_written:
  "written (streams (puts i evs x) j) = written (streams x j) @ (if j = i then evs else [])"
  by (simp add: puts_def)

subsection \<open>The loops\<close>

lemma PrintPDBDeclarations_loop_puts:
  "PrintPDBDeclarations_loop E es x =
     puts (OutputFile (R x))
       (map (\<lambda>e. Text (declaration_line E (R x) e))
          (filter (\<lambda>e. Tag e = SymTagUDT \<and> \<not> IsUnnamedSymbol E e) es)) x"
proof (induction es arbitrary: x)
  case Nil
  show ?case by (simp add: puts_Nil)
next
  case (Cons e es)
  show ?case by (simp add: Cons.IH put_puts puts_fields puts_puts)
qed

lemma PrintPDBDefinitions_loop_puts:
  "PrintPDBDefinitions_loop E es x =
     puts (OutputFile (R x)) (map VisitorRun (filter (Expand E (R x)) es)) x"
proof (induction es arbitrary: x)
  case Nil
  show ?case by (simp add: puts_Nil)
next
  case (Cons e es)
  show ?case by (simp add: Cons.IH SymbolVisitor_Run_def put_puts puts_fields puts_puts)
qed

lemma GetArchitecture_loop_fields:
  "m_ExtractorSettings (GetArchitecture_loop E es x) = m_ExtractorSettings x"
  "streams (GetArchitecture_loop E es x) = streams x"
  "stream_count (GetArchitecture_loop E es x) = stream_count x"
  "cerr (GetArchitecture_loop E es x) = cerr x"
  by (induction es arbitrary: x) (simp_all add: Let_def)

lemma Visit_all_fields:
  "m_ExtractorSettings (Visit_all E es x) = m_ExtractorSettings x"
  "streams (Visit_all E es x) = streams x"
  "stream_count (Visit_all E es x) = stream_count x"
  "cerr (Visit_all E es x) = cerr x"
  by (induction es arbitrary: x) simp_all

lemma PrintPDBHeader_fields:
  "m_ExtractorSettings (PrintPDBHeader E x) = m_ExtractorSettings x"
  "stream_count (PrintPDBHeader E x) = stream_count x"
  "cerr (PrintPDBHeader E x) = cerr x"
  "R (PrintPDBHeader E x) = R x"
  by (simp_all add: PrintPDBHeader_def Let_def put_puts puts_fields GetArchitecture_def
        GetArchitecture_loop_fields R_def)

lemma PrintPDBDeclarations_puts:
  "PrintPDBDeclarations E x =
     puts (OutputFile (R x))
       (if PrintDeclarations (m_ExtractorSettings x)
        then map (\<lambda>e. Text (declaration_line E (R x) e))
               (filter (\<lambda>e. Tag e = SymTagUDT \<and> \<not> IsUnnamedSymbol E e)
                  (sorter_GetSortedSymbols E (m_SymbolSorter x))) @ [Text endl]
        else []) x"
  by (simp add: PrintPDBDeclarations_def Let_def PrintPDBDeclarations_loop_puts put_puts
        puts_fields puts_puts puts_Nil)

lemma PrintPDBDefinitions_puts:
  "PrintPDBDefinitions E x =
     puts (OutputFile (R x))
       (if PrintDefinitions (m_ExtractorSettings x)
        then map VisitorRun (filter (Expand E (R x)) (sorter_GetSortedSymbols E (m_SymbolSorter x)))
        else []) x"
  by (simp add: PrintPDBDefinitions_def PrintPDBDefinitions_loop_puts puts_Nil)

text \<open>
  C8. When declarations are printed, \<^verbatim>\<open>PrintPDBDeclarations\<close> appends to the output file
  one line for each symbol of the sorted set that is a user-defined type with a name, in
  the order of the sorted set, and for no other symbol: the kind keyword, a space, the
  corrected name, a semicolon and the end of line. Unnamed user-defined types and all
  enums get no line. An empty line follows.
\<close>

theorem forward_declarations_named_udt_only:
  assumes "PrintDeclarations (m_ExtractorSettings x)"
  shows "written (streams (PrintPDBDeclarations E x) (OutputFile (R x))) =
           written (streams x (OutputFile (R x))) @
           map (\<lambda>e. Text (GetUdtKindString E (Kind e) @ '' '' @
                          GetCorrectedSymbolName E (R x) e @ '';'' @ endl))
             (filter (\<lambda>e. Tag e = SymTagUDT \<and> \<not> IsUnnamedSymbol E e)
                (sorter_GetSortedSymbols E (m_SymbolSorter x))) @
           [Text endl]"
  using assms by (simp add: PrintPDBDeclarations_puts puts_written declaration_line_def)

theorem forward_declarations_named_udt_only_witness:
  "PrintDeclarations (m_ExtractorSettings (demo_extractor\<lparr>m_SymbolSorter := [demo_union, demo_struct, demo_enum]\<rparr>))
   \<and> written (streams (PrintPDBDeclarations demo_env
          (demo_extractor\<lparr>m_SymbolSorter := [demo_union, demo_struct, demo_enum]\<rparr>)) 0)
       = [Text (''struct _LIST_ENTRY;'' @ endl), Text endl]"
  using forward_declarations_named_udt_only
          [of "demo_extractor\<lparr>m_SymbolSorter := [demo_union, demo_struct, demo_enum]\<rparr>" demo_env]
  by (simp add: demo_extractor_def demo_env_def demo_union_def demo_struct_def demo_enum_def R_def)

text \<open>
  C6, as amended. In all-symbols mode the output file receives, after the header, the
  forward declarations of the named user-defined types of the sorted set (when
  declarations are printed) and only then the definitions, in the order of the sorted
  set (unnamed user-defined types and enums are skipped under \<open>InlineUnnamed\<close>). In
  one-symbol mode no forward declaration is written: after the header come the
  definitions in the order of the sorted set when referenced types are printed and the
  policy is not \<open>InlineAll\<close>, and otherwise the definition of the requested symbol alone.
\<close>

theorem declarations_then_definitions:
  "written (streams (DumpAllSymbols E x) (OutputFile (R x))) =
     written (streams (PrintPDBHeader E x) (OutputFile (R x))) @
     (if PrintDeclarations (m_ExtractorSettings x)
      then map (\<lambda>e. Text (declaration_line E (R x) e))
             (filter (\<lambda>e. Tag e = SymTagUDT \<and> \<not> IsUnnamedSymbol E e)
                (sorter_GetSortedSymbols E
                   (m_SymbolSorter (Visit_all E (pdb_GetSymbolMap E) (PrintPDBHeader E x))))) @
           [Text endl]
      else []) @
     (if PrintDefinitions (m_ExtractorSettings x)
      then map VisitorRun
             (filter (Expand E (R x))
                (sorter_GetSortedSymbols E
                   (m_SymbolSorter (Visit_all E (pdb_GetSymbolMap E) (PrintPDBHeader E x)))))
      else [])
   \<and> (pdb_GetSymbolByName E (SymbolName (m_ExtractorSettings x)) = Some Symbol \<longrightarrow>
       (\<exists>x'. DumpOneSymbol E x = Returns x' \<and>
          written (streams x' (OutputFile (R x))) =
            written (streams (PrintPDBHeader E x) (OutputFile (R x))) @
            (if PrintReferencedTypes (m_ExtractorSettings x) \<and>
                MemberStructExpansion (R x) \<noteq> InlineAll
             then (if PrintDefinitions (m_ExtractorSettings x)
                   then map VisitorRun
                          (filter (Expand E (R x))
                             (sorter_GetSortedSymbols E
                                (sorter_Visit E Symbol (m_SymbolSorter (PrintPDBHeader E x)))))
                   else [])
             else [VisitorRun Symbol])))"
proof -
  have R_Visit_all: "R (Visit_all E es y) = R y" for es y
    by (simp add: R_def Visit_all_fields)
  have all: "written (streams (DumpAllSymbols E x) (OutputFile (R x))) =
     written (streams (PrintPDBHeader E x) (OutputFile (R x))) @
     (if PrintDeclarations (m_ExtractorSettings x)
      then map (\<lambda>e. Text (declaration_line E (R x) e))
             (filter (\<lambda>e. Tag e = SymTagUDT \<and> \<not> IsUnnamedSymbol E e)
                (sorter_GetSortedSymbols E
                   (m_SymbolSorter (Visit_all E (pdb_GetSymbolMap E) (PrintPDBHeader E x))))) @
           [Text endl]
      else []) @
     (if PrintDefinitions (m_ExtractorSettings x)
      then map VisitorRun
             (filter (Expand E (R x))
                (sorter_GetSortedSymbols E
                   (m_SymbolSorter (Visit_all E (pdb_GetSymbolMap E) (PrintPDBHeader E x)))))
      else [])"
    by (simp add: DumpAllSymbols_def Let_def PrintPDBDefinitions_puts PrintPDBDeclarations_puts
          puts_fields puts_written R_Visit_all Visit_all_fields PrintPDBHeader_fields)
  have one: "\<exists>x'. DumpOneSymbol E x = Returns x' \<and>
          written (streams x' (OutputFile (R x))) =
            written (streams (PrintPDBHeader E x) (OutputFile (R x))) @
            (if PrintReferencedTypes (m_ExtractorSettings x) \<and>
                MemberStructExpansion (R x) \<noteq> InlineAll
             then (if PrintDefinitions (m_ExtractorSettings x)
                   then map VisitorRun
                          (filter (Expand E (R x))
                             (sorter_GetSortedSymbols E
                                (sorter_Visit E Symbol (m_SymbolSorter (PrintPDBHeader E x)))))
                   else [])
             else [VisitorRun Symbol])"
    if "pdb_GetSymbolByName E (SymbolName (m_ExtractorSettings x)) = Some Symbol"
  proof -
    have r: "R (PrintPDBHeader E x\<lparr>m_SymbolSorter := s\<rparr>) = R x" for s
      using PrintPDBHeader_fields(4) [of E x] by (simp add: R_def)
    show ?thesis
      using that
      by (simp add: DumpOneSymbol_def Let_def PrintPDBDefinitions_puts SymbolVisitor_Run_def
            put_puts puts_written PrintPDBHeader_fields r)
  qed
  from all one show ?thesis by blast
qed

subsection \<open>Parsing the options\<close>

lemma quiet_refl: "quiet x x"
  by (simp add: quiet_def)

lemma quiet_trans: "quiet x y \<Longrightarrow> quiet y z \<Longrightarrow> quiet x z"
  unfolding quiet_def by metis

lemma quiet_set: "quiet x (set_S f x)" "quiet x (set_R g x)"
  by (simp_all add: quiet_def set_S_def set_R_def)

lemma quiet_open:
  "quiet x (set_R g (snd (new_ofstream n (set_S f x))))"
  by (simp add: quiet_def new_ofstream_def set_S_def set_R_def)

lemma option_switch_quiet:
  assumes "option_switch a n x = Some (b, x')"
  shows "quiet x x'"
proof -
  have v: "quiet x y"
    if "(case n of None \<Rightarrow> None | Some v \<Rightarrow> Some (True, set_R (g v) x)) = Some (b, y)" for g y
    using that by (cases n) (auto simp add: quiet_set)
  have w: "quiet x y"
    if "(case n of None \<Rightarrow> None
         | Some v \<Rightarrow> (case new_ofstream v (set_S (h v) x) of (f, x') \<Rightarrow> Some (True, set_R (g f) x')))
        = Some (b, y)" for g h y
  proof (cases n)
    case None
    with that show ?thesis by simp
  next
    case (Some v)
    obtain f x1 where o: "new_ofstream v (set_S (h v) x) = (f, x1)"
      by (cases "new_ofstream v (set_S (h v) x)")
    with that Some have "y = set_R (g f) (snd (new_ofstream v (set_S (h v) x)))" by simp
    then show ?thesis by (simp add: quiet_open)
  qed
  show ?thesis
    using assms unfolding option_switch_def Let_def
    by (auto split: if_splits dest: v w simp add: quiet_set)
qed

lemma option_switch_stepped:
  assumes "option_switch a n x = Some (b, x')"
  shows "b = takes_value a"
  using assms unfolding option_switch_def Let_def takes_value_def
  by (auto split: if_splits option.splits prod.splits)

lemma parse_options_result:
  "(\<exists>x'. parse_options args x = Returns x' \<and> quiet x x') \<or>
   (\<exists>x'. parse_options args x = Throws InvalidParameters x' \<and> quiet x x')"
proof (induction args x rule: parse_options.induct)
  case (1 x)
  show ?case by (simp add: quiet_refl)
next
  case (2 a rest x)
  show ?case
  proof (cases "malformed a")
    case True
    then show ?thesis by (simp add: quiet_refl)
  next
    case False
    show ?thesis
    proof (cases "option_switch a (case rest of [] \<Rightarrow> None | n # _ \<Rightarrow> Some n) x")
      case None
      with False show ?thesis by (simp add: quiet_refl)
    next
      case (Some r)
      obtain b x1 where r: "r = (b, x1)" by (cases r)
      have c: "quiet x x1" using Some r option_switch_quiet by blast
      have "(\<exists>x'. parse_options (if b then drop 1 rest else rest) x1 = Returns x' \<and> quiet x1 x') \<or>
            (\<exists>x'. parse_options (if b then drop 1 rest else rest) x1 = Throws InvalidParameters x' \<and> quiet x1 x')"
        using "2.IH" [OF False Some r [symmetric]] .
      then have "(\<exists>x'. parse_options (if b then drop 1 rest else rest) x1 = Returns x' \<and> quiet x x') \<or>
            (\<exists>x'. parse_options (if b then drop 1 rest else rest) x1 = Throws InvalidParameters x' \<and> quiet x x')"
        using quiet_trans [OF c] by blast
      with False Some r show ?thesis by simp
    qed
  qed
qed

lemma malformed_option_throws:
  "\<exists>a \<in> set (option_arguments args). malformed a \<Longrightarrow>
     \<exists>x'. parse_options args x = Throws InvalidParameters x' \<and> quiet x x'"
proof (induction args x rule: parse_options.induct)
  case (1 x)
  then show ?case by simp
next
  case (2 a rest x)
  show ?case
  proof (cases "malformed a")
    case True
    then show ?thesis by (simp add: quiet_refl)
  next
    case False
    show ?thesis
    proof (cases "option_switch a (case rest of [] \<Rightarrow> None | n # _ \<Rightarrow> Some n) x")
      case None
      with False show ?thesis by (simp add: quiet_refl)
    next
      case (Some r)
      obtain b x1 where r: "r = (b, x1)" by (cases r)
      have c: "quiet x x1" using Some r option_switch_quiet by blast
      have b: "b = takes_value a" using Some r option_switch_stepped by blast
      have "\<exists>a' \<in> set (option_arguments (if b then drop 1 rest else rest)). malformed a'"
        using "2.prems" False b by auto
      then have "\<exists>x'. parse_options (if b then drop 1 rest else rest) x1 = Throws InvalidParameters x' \<and> quiet x1 x'"
        by (rule "2.IH" [OF False Some r [symmetric]])
      then have "\<exists>x'. parse_options (if b then drop 1 rest else rest) x1 = Throws InvalidParameters x' \<and> quiet x x'"
        using quiet_trans [OF c] by blast
      with False Some r show ?thesis by simp
    qed
  qed
qed

text \<open>
  C9, as amended. Every argument that the option loop examines as an option (an argument
  after the symbol name and the path that is not stepped over as the value of an option
  before it) and that fails the shape test (its length is neither 2 nor 3; or its length
  is 2 and it does not begin with a dash; or its length is 3 and it neither begins nor
  ends with a dash) makes \<^verbatim>\<open>ParseParameters\<close> throw \<open>InvalidParameters\<close>; the run then
  prints that one message and returns the failure code.
\<close>

theorem malformed_option_rejected:
  assumes "\<exists>a \<in> set (option_arguments args). malformed a"
  shows "(\<exists>x'. parse_options args x = Throws InvalidParameters x')
         \<and> (\<exists>x'. ParseParameters E (prog # symbol # path # args) x = Throws InvalidParameters x')
         \<and> (\<exists>xf. Run E (prog # symbol # path # args) x = Returns (EXIT_FAILURE, xf)
                  \<and> cerr xf = cerr x @ [''Invalid parameters''])"
proof -
  let ?x0 = "set_S (\<lambda>s. s\<lparr>SymbolName := symbol, PdbPath := path\<rparr>) x"
  have ne: "args \<noteq> []" using assms by auto
  obtain x' where t: "parse_options args ?x0 = Throws InvalidParameters x'" and c: "cerr x' = cerr ?x0"
    using malformed_option_throws [OF assms, of ?x0] by (auto simp add: quiet_def)
  have p: "ParseParameters E (prog # symbol # path # args) x = Throws InvalidParameters x'"
    using ne t by (simp add: ParseParameters_def)
  have c': "cerr x' = cerr x" using c by (simp add: set_S_def)
  have "Run E (prog # symbol # path # args) x =
          Returns (EXIT_FAILURE, CloseOpenedFiles (x'\<lparr>cerr := cerr x' @ [what InvalidParameters]\<rparr>))"
    using p by (simp add: Run_def Run_try_def)
  moreover have "cerr (CloseOpenedFiles (x'\<lparr>cerr := cerr x' @ [what InvalidParameters]\<rparr>))
                 = cerr x @ [''Invalid parameters'']"
    using c' by (simp add: CloseOpenedFiles_def Let_def delete_stream_def R_def split: option.splits)
  ultimately show ?thesis
    using p malformed_option_throws [OF assms, of x] by blast
qed

text \<open>
  C10. The option \<^verbatim>\<open>-e\<close> throws only when no argument follows it. With a value whose
  first character is none of \<^verbatim>\<open>n\<close>, \<^verbatim>\<open>i\<close>, \<^verbatim>\<open>a\<close> (the empty value included) the option
  switch does not throw: it steps over the value and stores \<open>InlineUnnamed\<close> in the
  expansion policy of the settings, whatever the policy was, and changes nothing else;
  parsing goes on from there, exactly as with the value \<^verbatim>\<open>i\<close>. When \<^verbatim>\<open>-e\<close> and its value
  are the last arguments, parsing returns with the policy \<open>InlineUnnamed\<close>.
\<close>

theorem expansion_value_falls_back:
  "(option_switch ''-e'' NextArgument x = None \<longleftrightarrow> NextArgument = None)
   \<and> parse_options [''-e''] x = Throws InvalidParameters x
   \<and> (take 1 v \<notin> {''n'', ''i'', ''a''} \<longrightarrow>
        option_switch ''-e'' (Some v) x =
          Some (True,
                x\<lparr>m_ExtractorSettings :=
                    (m_ExtractorSettings x)
                      \<lparr>PdbHeaderReconstructorSettings :=
                         (PdbHeaderReconstructorSettings (m_ExtractorSettings x))
                           \<lparr>MemberStructExpansion := InlineUnnamed\<rparr>\<rparr>\<rparr>)
        \<and> parse_options (''-e'' # v # rest) x =
            parse_options rest
              (x\<lparr>m_ExtractorSettings :=
                   (m_ExtractorSettings x)
                     \<lparr>PdbHeaderReconstructorSettings :=
                        (PdbHeaderReconstructorSettings (m_ExtractorSettings x))
                          \<lparr>MemberStructExpansion := InlineUnnamed\<rparr>\<rparr>\<rparr>)
        \<and> (\<exists>x'. parse_options [''-e'', v] x = Returns x'
                 \<and> MemberStructExpansion (PdbHeaderReconstructorSettings (m_ExtractorSettings x'))
                     = InlineUnnamed)
        \<and> parse_options (''-e'' # v # rest) x =
            parse_options rest (set_R (\<lambda>r. r\<lparr>MemberStructExpansion := InlineUnnamed\<rparr>) x)
        \<and> parse_options (''-e'' # v # rest) x = parse_options (''-e'' # ''i'' # rest) x)"
proof -
  let ?x1 = "x\<lparr>m_ExtractorSettings :=
                   (m_ExtractorSettings x)
                     \<lparr>PdbHeaderReconstructorSettings :=
                        (PdbHeaderReconstructorSettings (m_ExtractorSettings x))
                          \<lparr>MemberStructExpansion := InlineUnnamed\<rparr>\<rparr>\<rparr>"
  have a: "option_switch ''-e'' NextArgument x = None \<longleftrightarrow> NextArgument = None"
    by (cases NextArgument) (simp_all add: option_switch_def)
  have b: "parse_options [''-e''] x = Throws InvalidParameters x"
    by (simp add: malformed_def option_switch_def)
  have e: "expansion_of v = InlineUnnamed" if "take 1 v \<notin> {''n'', ''i'', ''a''}"
    using that by (cases v) (auto simp add: expansion_of_def)
  have s: "set_R (\<lambda>r. r\<lparr>MemberStructExpansion := InlineUnnamed\<rparr>) x = ?x1"
    by (simp add: set_R_def set_S_def)
  have o: "option_switch ''-e'' (Some w) x =
             Some (True, set_R (\<lambda>r. r\<lparr>MemberStructExpansion := expansion_of w\<rparr>) x)" for w
    by (simp add: option_switch_def)
  have c: "parse_options (''-e'' # w # rest') x =
             parse_options rest' (set_R (\<lambda>r. r\<lparr>MemberStructExpansion := expansion_of w\<rparr>) x)"
    for w rest'
    by (simp add: malformed_def option_switch_def)
  have i: "expansion_of ''i'' = InlineUnnamed" by (simp add: expansion_of_def)
  have l: "MemberStructExpansion (PdbHeaderReconstructorSettings (m_ExtractorSettings ?x1))
             = InlineUnnamed" by simp
  have r: "\<exists>x'. parse_options [''-e'', v] x = Returns x'
                 \<and> MemberStructExpansion (PdbHeaderReconstructorSettings (m_ExtractorSettings x'))
                     = InlineUnnamed" if "take 1 v \<notin> {''n'', ''i'', ''a''}"
    using c [of v "[]"] e [OF that] s l by simp
  show ?thesis using a b o c e i s r by simp
qed

subsection \<open>One-symbol mode without referenced types\<close>

text \<open>
  C7. In one-symbol mode, when the expansion policy is \<open>InlineAll\<close> or the printing of
  referenced types is turned off, \<^verbatim>\<open>DumpOneSymbol\<close> prints the header and then runs the
  symbol visitor on the requested symbol, once: nothing else is written to any stream,
  so no referenced type gets a definition of its own. The sorter is not shown the
  requested symbol; it is left as the architecture detection of the header left it,
  and untouched when the header is off.
\<close>

theorem inline_all_defines_requested_symbol_only:
  assumes "pdb_GetSymbolByName E (SymbolName (m_ExtractorSettings x)) = Some Symbol"
    and "MemberStructExpansion (R x) = InlineAll \<or> \<not> PrintReferencedTypes (m_ExtractorSettings x)"
  shows "DumpOneSymbol E x = Returns (SymbolVisitor_Run Symbol (PrintPDBHeader E x))
    \<and> (\<forall>j. written (streams (SymbolVisitor_Run Symbol (PrintPDBHeader E x)) j) =
            written (streams x j) @
            (if j = OutputFile (R x)
             then (if PrintHeader (m_ExtractorSettings x)
                   then [Text (HEADER_FILE_HEADER (PDBEX_VERSION_STRING E)
                                 (PdbPath (m_ExtractorSettings x))
                                 (ArchictureStrings (m_Architecture (GetArchitecture E x))))]
                   else []) @ [VisitorRun Symbol]
             else []))
    \<and> m_SymbolSorter (SymbolVisitor_Run Symbol (PrintPDBHeader E x)) =
        (if PrintHeader (m_ExtractorSettings x) then m_SymbolSorter (GetArchitecture E x)
         else m_SymbolSorter x)"
proof -
  have d: "DumpOneSymbol E x = Returns (SymbolVisitor_Run Symbol (PrintPDBHeader E x))"
    using assms by (auto simp add: DumpOneSymbol_def Let_def PrintPDBHeader_fields)
  have g: "R (GetArchitecture E x) = R x" "m_ExtractorSettings (GetArchitecture E x) = m_ExtractorSettings x"
    "streams (GetArchitecture E x) = streams x"
    by (simp_all add: R_def GetArchitecture_def GetArchitecture_loop_fields)
  have w: "written (streams (SymbolVisitor_Run Symbol (PrintPDBHeader E x)) j) =
            written (streams x j) @
            (if j = OutputFile (R x)
             then (if PrintHeader (m_ExtractorSettings x)
                   then [Text (HEADER_FILE_HEADER (PDBEX_VERSION_STRING E)
                                 (PdbPath (m_ExtractorSettings x))
                                 (ArchictureStrings (m_Architecture (GetArchitecture E x))))]
                   else []) @ [VisitorRun Symbol]
             else [])" for j
    by (simp add: SymbolVisitor_Run_def PrintPDBHeader_def Let_def put_puts puts_written puts_fields g)
  have s: "m_SymbolSorter (SymbolVisitor_Run Symbol (PrintPDBHeader E x)) =
        (if PrintHeader (m_ExtractorSettings x) then m_SymbolSorter (GetArchitecture E x)
         else m_SymbolSorter x)"
    by (simp add: SymbolVisitor_Run_def PrintPDBHeader_def Let_def put_puts puts_fields)
  from d w s show ?thesis by blast
qed

subsection \<open>A run that fails\<close>

lemma CloseOpenedFiles_fields:
  "cerr (CloseOpenedFiles y) = cerr y"
  "written (streams (CloseOpenedFiles y) j) = written (streams y j)"
  "m_ExtractorSettings (CloseOpenedFiles y) = m_ExtractorSettings y"
  by (simp_all add: CloseOpenedFiles_def Let_def delete_stream_def R_def split: option.splits)

lemma CloseOpenedFiles_closes:
  "TestFilename (m_ExtractorSettings y) \<noteq> None \<Longrightarrow> TestFile (R y) = Some f \<Longrightarrow>
     closed (streams (CloseOpenedFiles y) f)"
  "OutputFilename (m_ExtractorSettings y) \<noteq> None \<Longrightarrow>
     closed (streams (CloseOpenedFiles y) (OutputFile (R y)))"
  by (auto simp add: CloseOpenedFiles_def Let_def delete_stream_def R_def split: option.splits)

lemma ParseParameters_Returns:
  assumes "ParseParameters E argv x = Returns x1"
  shows "quiet x x1"
proof -
  from assms obtain prog symbol path rest where a: "argv = prog # symbol # path # rest"
    by (cases argv rule: list.exhaust; simp add: ParseParameters_def split: if_splits list.splits)
  let ?x0 = "set_S (\<lambda>s. s\<lparr>SymbolName := symbol, PdbPath := path\<rparr>) x"
  have q0: "quiet x ?x0" by (rule quiet_set)
  from parse_options_result [of rest ?x0] show ?thesis
  proof
    assume "\<exists>x'. parse_options rest ?x0 = Returns x' \<and> quiet ?x0 x'"
    then obtain x' where p: "parse_options rest ?x0 = Returns x'" and q: "quiet ?x0 x'" by blast
    have "quiet x' (x'\<lparr>m_SymbolSorter := sorter_new E\<rparr>)" by (simp add: quiet_def)
    with q0 q have "quiet x (x'\<lparr>m_SymbolSorter := sorter_new E\<rparr>)" by (blast intro: quiet_trans)
    with assms a p show ?thesis
      by (auto simp add: ParseParameters_def split: if_splits)
  next
    assume "\<exists>x'. parse_options rest ?x0 = Throws InvalidParameters x' \<and> quiet ?x0 x'"
    then obtain x' where "parse_options rest ?x0 = Throws InvalidParameters x'" by blast
    with assms a show ?thesis
      by (auto simp add: ParseParameters_def split: if_splits)
  qed
qed

text \<open>
  What a run does that asks for one symbol the file does not have, once its parameters
  have parsed and the symbol file has opened: it returns the failure code after writing
  the one line \<^verbatim>\<open>Symbol not found\<close> to \<^verbatim>\<open>std::cerr\<close>. Parsing wrote nothing, and since
  parsing nothing was written to any stream but the frame header of the test file: no
  header, declaration or definition. The two stream objects that the settings point to
  are closed.
\<close>

theorem absent_symbol_fails_run:
  assumes "ParseParameters E argv x = Returns x1"
    and "pdb_Open E (PdbPath (m_ExtractorSettings x1))"
    and "SymbolName (m_ExtractorSettings x1) \<noteq> ''*''"
    and "pdb_GetSymbolByName E (SymbolName (m_ExtractorSettings x1)) = None"
  shows "\<exists>xf. Run E argv x = Returns (EXIT_FAILURE, xf) \<and> EXIT_FAILURE \<noteq> ERROR_SUCCESS
      \<and> cerr xf = cerr x @ [''Symbol not found'']
      \<and> (\<forall>j. written (streams x1 j) = written (streams x j) \<or> written (streams x1 j) = [])
      \<and> (\<forall>j. written (streams xf j) =
              written (streams x1 j) @
              (if TestFile (R x1) = Some j
               then [Text (TEST_FILE_HEADER
                             (case OutputFilename (m_ExtractorSettings x1) of
                                Some n \<Rightarrow> n | None \<Rightarrow> ''(null)''))]
               else []))
      \<and> (TestFilename (m_ExtractorSettings x1) \<noteq> None \<longrightarrow>
           (\<forall>f. TestFile (R x1) = Some f \<longrightarrow> closed (streams xf f)))
      \<and> (OutputFilename (m_ExtractorSettings x1) \<noteq> None \<longrightarrow>
           closed (streams xf (OutputFile (R x1))))"
proof -
  let ?x3 = "PrintTestHeader x1"
  let ?y = "?x3\<lparr>cerr := cerr ?x3 @ [what SymbolNotFound]\<rparr>"
  have h: "m_ExtractorSettings ?x3 = m_ExtractorSettings x1" "cerr ?x3 = cerr x1"
    by (simp_all add: PrintTestHeader_def put_puts puts_fields split: option.splits)
  have t: "Run_try E argv x = Throws SymbolNotFound ?x3"
    using assms by (simp add: Run_try_def OpenPDBFile_def DumpOneSymbol_def h)
  have r: "Run E argv x = Returns (EXIT_FAILURE, CloseOpenedFiles ?y)"
    using t by (simp add: Run_def)
  have y: "m_ExtractorSettings ?y = m_ExtractorSettings x1" "R ?y = R x1"
    using h by (simp_all add: R_def)
  have q: "quiet x x1" using assms(1) by (rule ParseParameters_Returns)
  have c: "cerr (CloseOpenedFiles ?y) = cerr x @ [''Symbol not found'']"
    using q h by (simp add: CloseOpenedFiles_fields quiet_def)
  have p: "\<forall>j. written (streams x1 j) = written (streams x j) \<or> written (streams x1 j) = []"
    using q by (simp add: quiet_def)
  have w: "written (streams (CloseOpenedFiles ?y) j) =
              written (streams x1 j) @
              (if TestFile (R x1) = Some j
               then [Text (TEST_FILE_HEADER
                             (case OutputFilename (m_ExtractorSettings x1) of
                                Some n \<Rightarrow> n | None \<Rightarrow> ''(null)''))]
               else [])" for j
    by (auto simp add: CloseOpenedFiles_fields PrintTestHeader_def put_puts puts_written
          split: option.splits)
  have ct: "closed (streams (CloseOpenedFiles ?y) f)"
    if "TestFilename (m_ExtractorSettings x1) \<noteq> None" "TestFile (R x1) = Some f" for f
    using that CloseOpenedFiles_closes(1) [of ?y f] y by simp
  have co: "closed (streams (CloseOpenedFiles ?y) (OutputFile (R x1)))"
    if "OutputFilename (m_ExtractorSettings x1) \<noteq> None"
    using that CloseOpenedFiles_closes(2) [of ?y] y by simp
  have e: "EXIT_FAILURE \<noteq> ERROR_SUCCESS" by (simp add: EXIT_FAILURE_def ERROR_SUCCESS_def)
  from r e c p w ct co show ?thesis by blast
qed

section \<open>The theorems at concrete inputs\<close>

text \<open>
  The runs below use the symbol file, the sorter and the extractor of the section on
  concrete inputs; the definitions are unfolded and evaluated by the simplifier.
\<close>

lemmas demo_defs = demo_extractor_def demo_env_def demo_struct_def demo_union_def demo_enum_def
lemmas run_defs = Run_def Run_try_def ParseParameters_def malformed_def option_switch_def
      set_S_def set_R_def new_ofstream_def OpenPDBFile_def expansion_of_def
      PrintTestHeader_def PrintTestFooter_def R_def DumpOneSymbol_def DumpAllSymbols_def CloseOpenedFiles_def delete_stream_def
      EXIT_FAILURE_def ERROR_SUCCESS_def EXIT_SUCCESS_def PrintPDBHeader_def GetArchitecture_def
      PrintPDBDeclarations_def PrintPDBDefinitions_def SymbolVisitor_Run_def Expand_def put_def
      declaration_line_def Let_def



text \<open>
  In one-symbol mode the run below, with declarations enabled, defines the named
  structure of its sorted set and writes no forward declaration of it.
\<close>

theorem one_symbol_mode_counterexample:
  "(case Run demo_env [''pdbex'', ''_LIST_ENTRY'', ''a.pdb''] demo_extractor of
      Returns (rc, x) \<Rightarrow>
        rc = ERROR_SUCCESS
        \<and> PrintDeclarations (m_ExtractorSettings x)
        \<and> sorter_GetSortedSymbols demo_env (m_SymbolSorter x) = [demo_struct]
        \<and> Tag demo_struct = SymTagUDT \<and> \<not> IsUnnamedSymbol demo_env demo_struct
        \<and> written (streams x 0) =
            [Text (HEADER_FILE_HEADER ''0.18'' ''a.pdb'' ''x64''), VisitorRun demo_struct]
        \<and> Text (declaration_line demo_env (R x) demo_struct) \<notin> set (written (streams x 0))
    | _ \<Rightarrow> False)"
  by (simp add: run_defs demo_defs HEADER_FILE_HEADER_def endl_def)

text \<open>
  C4. A run that asks for an absent symbol should print one diagnostic line, return a
  non-zero status, write no declaration or definition and close every output file made
  so far. With \<^verbatim>\<open>-o\<close> given twice the run does the first three, but the stream object
  made for the first file name is still open when \<^verbatim>\<open>Run\<close> returns: the second \<^verbatim>\<open>-o\<close>
  overwrote the only pointer to it, and \<^verbatim>\<open>CloseOpenedFiles\<close> deletes what the pointer
  refers to.
\<close>

theorem repeated_output_option_leaves_stream_open:
  "(case Run demo_env [''pdbex'', ''NoSuchType'', ''a.pdb'', ''-o'', ''a.h'', ''-o'', ''b.h'']
           demo_extractor of
      Returns (rc, x) \<Rightarrow>
        rc = EXIT_FAILURE \<and> cerr x = [''Symbol not found'']
        \<and> written (streams x 0) = [] \<and> written (streams x 1) = []
        \<and> written (streams x 2) = []
        \<and> filename (streams x 1) = Some ''a.h'' \<and> \<not> closed (streams x 1)
        \<and> filename (streams x 2) = Some ''b.h'' \<and> closed (streams x 2)
    | _ \<Rightarrow> False)"
  by (simp add: run_defs demo_defs)

text \<open>
  Two arguments that are not of the worded flag form and are accepted: the value of
  \<^verbatim>\<open>-r\<close>, and \<^verbatim>\<open>-px\<close>, which is read as \<^verbatim>\<open>-p\<close>.
\<close>

theorem accepted_arguments_counterexample:
  "\<not> worded_flag_form ''prefix''
   \<and> ParseParameters demo_env [''pdbex'', ''*'', ''a.pdb'', ''-r'', ''prefix''] demo_extractor
       = Returns (set_R (\<lambda>r. r\<lparr>SymbolPrefix := ''prefix''\<rparr>)
                   (set_S (\<lambda>s. s\<lparr>SymbolName := ''*'', PdbPath := ''a.pdb''\<rparr>) demo_extractor))
   \<and> \<not> worded_flag_form ''-px''
   \<and> ParseParameters demo_env [''pdbex'', ''*'', ''a.pdb'', ''-px''] demo_extractor
       = Returns (set_R (\<lambda>r. r\<lparr>CreatePaddingMembers := True\<rparr>)
                   (set_S (\<lambda>s. s\<lparr>SymbolName := ''*'', PdbPath := ''a.pdb''\<rparr>) demo_extractor))"
  by (simp add: worded_flag_form_def run_defs demo_defs)

theorem malformed_option_rejected_witness:
  "(\<exists>a \<in> set (option_arguments [''-r'', ''prefix'', ''bogus'']). malformed a)
   \<and> (case Run demo_env [''pdbex'', ''*'', ''a.pdb'', ''-r'', ''prefix'', ''bogus''] demo_extractor of
        Returns (rc, x) \<Rightarrow> rc = EXIT_FAILURE \<and> cerr x = [''Invalid parameters'']
      | _ \<Rightarrow> False)"
proof -
  have h: "\<exists>a \<in> set (option_arguments [''-r'', ''prefix'', ''bogus'']). malformed a"
    by (simp add: takes_value_def malformed_def)
  have c: "cerr demo_extractor = []" by (simp add: demo_extractor_def)
  from malformed_option_rejected
         [OF h, where E = demo_env and prog = "''pdbex''" and symbol = "''*''" and path = "''a.pdb''"
            and x = demo_extractor]
  obtain xf where "Run demo_env [''pdbex'', ''*'', ''a.pdb'', ''-r'', ''prefix'', ''bogus''] demo_extractor
                   = Returns (EXIT_FAILURE, xf)" "cerr xf = cerr demo_extractor @ [''Invalid parameters'']"
    by blast
  with h c show ?thesis by simp
qed

theorem expansion_value_falls_back_witness:
  "take 1 ''x'' \<notin> {''n'', ''i'', ''a''}
   \<and> MemberStructExpansion (PdbHeaderReconstructorSettings (m_ExtractorSettings demo_inline_all))
       = InlineAll
   \<and> (case parse_options [''-e'', ''x''] demo_inline_all of
        Returns x' \<Rightarrow>
          MemberStructExpansion (PdbHeaderReconstructorSettings (m_ExtractorSettings x'))
            = InlineUnnamed
      | _ \<Rightarrow> False)
   \<and> parse_options [''-e''] demo_inline_all = Throws InvalidParameters demo_inline_all"
proof -
  have h: "take 1 ''x'' \<notin> {''n'', ''i'', ''a''}" by simp
  note t = expansion_value_falls_back [of None demo_inline_all "''x''" "[]"]
  from t h obtain x' where "parse_options [''-e'', ''x''] demo_inline_all = Returns x'"
    "MemberStructExpansion (PdbHeaderReconstructorSettings (m_ExtractorSettings x')) = InlineUnnamed"
    by blast
  moreover from t have "parse_options [''-e''] demo_inline_all = Throws InvalidParameters demo_inline_all"
    by blast
  moreover have "MemberStructExpansion (PdbHeaderReconstructorSettings (m_ExtractorSettings demo_inline_all))
       = InlineAll"
    by (simp add: demo_inline_all_def)
  ultimately show ?thesis using h by (simp del: parse_options.simps(2))
qed

theorem inline_all_defines_requested_symbol_only_witness:
  "pdb_GetSymbolByName demo_env
     (SymbolName (m_ExtractorSettings
        (set_R (\<lambda>r. r\<lparr>MemberStructExpansion := InlineAll\<rparr>)
           (set_S (\<lambda>s. s\<lparr>SymbolName := ''_LIST_ENTRY'', PdbPath := ''a.pdb''\<rparr>) demo_extractor))))
     = Some demo_struct
   \<and> MemberStructExpansion (R
        (set_R (\<lambda>r. r\<lparr>MemberStructExpansion := InlineAll\<rparr>)
           (set_S (\<lambda>s. s\<lparr>SymbolName := ''_LIST_ENTRY'', PdbPath := ''a.pdb''\<rparr>) demo_extractor)))
     = InlineAll
   \<and> (case DumpOneSymbol demo_env
        (set_R (\<lambda>r. r\<lparr>MemberStructExpansion := InlineAll\<rparr>)
           (set_S (\<lambda>s. s\<lparr>SymbolName := ''_LIST_ENTRY'', PdbPath := ''a.pdb''\<rparr>) demo_extractor)) of
        Returns y \<Rightarrow>
          written (streams y 0) =
            [Text (HEADER_FILE_HEADER ''0.18'' ''a.pdb'' ''x64''), VisitorRun demo_struct]
          \<and> m_SymbolSorter y = []
      | _ \<Rightarrow> False)"
proof -
  let ?x = "set_R (\<lambda>r. r\<lparr>MemberStructExpansion := InlineAll\<rparr>)
           (set_S (\<lambda>s. s\<lparr>SymbolName := ''_LIST_ENTRY'', PdbPath := ''a.pdb''\<rparr>) demo_extractor)"
  have a: "pdb_GetSymbolByName demo_env (SymbolName (m_ExtractorSettings ?x)) = Some demo_struct"
    by (simp add: demo_defs set_R_def set_S_def)
  have b: "MemberStructExpansion (R ?x) = InlineAll \<or> \<not> PrintReferencedTypes (m_ExtractorSettings ?x)"
    by (simp add: demo_defs set_R_def set_S_def R_def)
  have b': "MemberStructExpansion (R ?x) = InlineAll"
    by (simp add: demo_defs set_R_def set_S_def R_def)
  from inline_all_defines_requested_symbol_only [OF a b]
  have "DumpOneSymbol demo_env ?x = Returns (SymbolVisitor_Run demo_struct (PrintPDBHeader demo_env ?x))"
    by blast
  moreover have "written (streams (SymbolVisitor_Run demo_struct (PrintPDBHeader demo_env ?x)) 0) =
            [Text (HEADER_FILE_HEADER ''0.18'' ''a.pdb'' ''x64''), VisitorRun demo_struct]"
    by (simp add: run_defs demo_defs)
  moreover have "m_SymbolSorter (SymbolVisitor_Run demo_struct (PrintPDBHeader demo_env ?x)) = []"
    by (simp add: run_defs demo_defs)
  ultimately show ?thesis using a b' by simp
qed


theorem declarations_then_definitions_witness:
  "pdb_GetSymbolByName demo_env
     (SymbolName (m_ExtractorSettings
        (set_S (\<lambda>s. s\<lparr>SymbolName := ''_LIST_ENTRY'', PdbPath := ''a.pdb''\<rparr>) demo_extractor)))
     = Some demo_struct
   \<and> written (streams (DumpAllSymbols demo_env
        (set_S (\<lambda>s. s\<lparr>SymbolName := ''_LIST_ENTRY'', PdbPath := ''a.pdb''\<rparr>) demo_extractor)) 0)
     = [Text (HEADER_FILE_HEADER ''0.18'' ''a.pdb'' ''x64''),
        Text (''struct _LIST_ENTRY;'' @ endl), Text endl,
        VisitorRun demo_struct, VisitorRun demo_enum]
   \<and> (case DumpOneSymbol demo_env
        (set_S (\<lambda>s. s\<lparr>SymbolName := ''_LIST_ENTRY'', PdbPath := ''a.pdb''\<rparr>) demo_extractor) of
        Returns y \<Rightarrow>
          written (streams y 0) =
            [Text (HEADER_FILE_HEADER ''0.18'' ''a.pdb'' ''x64''), VisitorRun demo_struct]
      | _ \<Rightarrow> False)"
proof -
  let ?x = "set_S (\<lambda>s. s\<lparr>SymbolName := ''_LIST_ENTRY'', PdbPath := ''a.pdb''\<rparr>) demo_extractor"
  have a: "pdb_GetSymbolByName demo_env (SymbolName (m_ExtractorSettings ?x)) = Some demo_struct"
    by (simp add: demo_defs set_S_def)
  have o: "OutputFile (R ?x) = 0"
    by (simp add: demo_defs set_S_def R_def)
  have h: "written (streams (PrintPDBHeader demo_env ?x) 0) = [Text (HEADER_FILE_HEADER ''0.18'' ''a.pdb'' ''x64'')]"
    by (simp add: run_defs demo_defs)
  have v: "m_SymbolSorter (Visit_all demo_env (pdb_GetSymbolMap demo_env) (PrintPDBHeader demo_env ?x))
           = [demo_union, demo_struct, demo_enum]"
    by (simp add: run_defs demo_defs)
  have s: "m_SymbolSorter (PrintPDBHeader demo_env ?x) = []"
    by (simp add: run_defs demo_defs)
  have f: "PrintDeclarations (m_ExtractorSettings ?x)" "PrintDefinitions (m_ExtractorSettings ?x)"
     "PrintReferencedTypes (m_ExtractorSettings ?x)" "MemberStructExpansion (R ?x) = InlineUnnamed"
    by (simp_all add: demo_defs set_S_def R_def)
  have k:
    "Tag demo_union = SymTagUDT" "IsUnnamedSymbol demo_env demo_union"
    "Tag demo_struct = SymTagUDT" "\<not> IsUnnamedSymbol demo_env demo_struct"
    "Tag demo_enum = SymTagEnum"
    "\<not> Expand demo_env (R ?x) demo_union"
    "Expand demo_env (R ?x) demo_struct"
    "Expand demo_env (R ?x) demo_enum"
    "declaration_line demo_env (R ?x) demo_struct = ''struct _LIST_ENTRY;'' @ endl"
    "sorter_Visit demo_env demo_struct [] = [demo_struct]"
    "\<And>srt. sorter_GetSortedSymbols demo_env srt = srt"
    by (simp_all add: declaration_line_def Expand_def demo_defs R_def set_S_def)
  note t = declarations_then_definitions [of demo_env ?x demo_struct]
  from t have "written (streams (DumpAllSymbols demo_env ?x) 0)
     = [Text (HEADER_FILE_HEADER ''0.18'' ''a.pdb'' ''x64''),
        Text (''struct _LIST_ENTRY;'' @ endl), Text endl,
        VisitorRun demo_struct, VisitorRun demo_enum]"
    by (simp add: o h v f k)
  moreover from t a obtain y where "DumpOneSymbol demo_env ?x = Returns y"
    "written (streams y 0) = [Text (HEADER_FILE_HEADER ''0.18'' ''a.pdb'' ''x64''), VisitorRun demo_struct]"
    by (auto simp add: o h s f k)
  ultimately show ?thesis using a by simp
qed

theorem absent_symbol_fails_run_witness:
  "(case Run demo_env [''pdbex'', ''NoSuchType'', ''a.pdb'', ''-o'', ''a.h'', ''-t'', ''t.c'']
           demo_extractor of
      Returns (rc, xf) \<Rightarrow>
        rc = EXIT_FAILURE \<and> cerr xf = [''Symbol not found'']
        \<and> written (streams xf 0) = [] \<and> written (streams xf 1) = []
        \<and> written (streams xf 2) = [Text (TEST_FILE_HEADER ''a.h'')]
        \<and> closed (streams xf 1) \<and> closed (streams xf 2)
    | _ \<Rightarrow> False)"
proof -
  let ?argv = "[''pdbex'', ''NoSuchType'', ''a.pdb'', ''-o'', ''a.h'', ''-t'', ''t.c'']"
  define x1 where
    "x1 = (case ParseParameters demo_env ?argv demo_extractor of Returns y \<Rightarrow> y | _ \<Rightarrow> demo_extractor)"
  have p: "ParseParameters demo_env ?argv demo_extractor = Returns x1"
    unfolding x1_def by (simp add: run_defs demo_defs)
  have o: "pdb_Open demo_env (PdbPath (m_ExtractorSettings x1))"
    unfolding x1_def by (simp add: run_defs demo_defs)
  have n: "SymbolName (m_ExtractorSettings x1) \<noteq> ''*''"
    unfolding x1_def by (simp add: run_defs demo_defs)
  have a: "pdb_GetSymbolByName demo_env (SymbolName (m_ExtractorSettings x1)) = None"
    unfolding x1_def by (simp add: run_defs demo_defs)
  have f: "TestFile (R x1) = Some 2" "OutputFile (R x1) = 1"
    "TestFilename (m_ExtractorSettings x1) = Some ''t.c''"
    "OutputFilename (m_ExtractorSettings x1) = Some ''a.h''"
    "written (streams x1 0) = []" "written (streams x1 1) = []" "written (streams x1 2) = []"
    unfolding x1_def by (simp_all add: run_defs demo_defs)
  have c: "cerr demo_extractor = []" by (simp add: demo_extractor_def)
  from absent_symbol_fails_run [OF p o n a] obtain xf where
    r: "Run demo_env ?argv demo_extractor = Returns (EXIT_FAILURE, xf)"
    and e: "cerr xf = cerr demo_extractor @ [''Symbol not found'']"
    and "\<forall>j. written (streams x1 j) = written (streams demo_extractor j) \<or> written (streams x1 j) = []"
    and w: "\<forall>j. written (streams xf j) =
              written (streams x1 j) @
              (if TestFile (R x1) = Some j
               then [Text (TEST_FILE_HEADER
                             (case OutputFilename (m_ExtractorSettings x1) of
                                Some n \<Rightarrow> n | None \<Rightarrow> ''(null)''))]
               else [])"
    and ct: "TestFilename (m_ExtractorSettings x1) \<noteq> None \<longrightarrow>
           (\<forall>f. TestFile (R x1) = Some f \<longrightarrow> closed (streams xf f))"
    and co: "OutputFilename (m_ExtractorSettings x1) \<noteq> None \<longrightarrow>
           closed (streams xf (OutputFile (R x1)))"
    by blast
  have "written (streams xf 0) = []" "written (streams xf 1) = []"
    "written (streams xf 2) = [Text (TEST_FILE_HEADER ''a.h'')]"
    using w f by simp_all
  moreover have "closed (streams xf 1)" "closed (streams xf 2)"
    using ct co f by simp_all
  ultimately show ?thesis using r e c by simp
qed

end
